theory Spec2Isabelle
  imports Complex_Main "HOL-Library.Multiset" "HOL-Library.Char_ord" "HOL-Library.List_Lexorder"
begin

section \<open>The embedded database (src/services/database.ts)\<close>

text \<open>
  The stores of the application issue parameterised SQL statements against one SQLite
  handle. The schema of \<^verbatim>\<open>initializeDatabase\<close> is modelled table by table: a table is
  the list of its rows in rowid order, a nullable column is an \<open>option\<close>, an
  \<^verbatim>\<open>INTEGER PRIMARY KEY AUTOINCREMENT\<close> is a natural number drawn from a per-table
  sequence, a \<^verbatim>\<open>DATETIME\<close> is a number of seconds, and a column restricted by a
  \<^verbatim>\<open>CHECK(... IN ...)\<close> is a datatype. JavaScript numbers that count things (identifiers,
  seconds, sequence numbers) are integers, percentages are reals. Foreign keys are
  declared in the schema but never switched on (\<^verbatim>\<open>PRAGMA foreign_keys\<close> is not issued),
  so they are not enforced; \<^verbatim>\<open>UNIQUE\<close> constraints are. The table
  \<^verbatim>\<open>assignment_submissions\<close>, which no store operation reads or writes, is left out.
\<close>

type_synonym timestamp = nat

datatype role = teacher | student

datatype enrollment_status = active | completed | dropped

datatype question_type = multiple_choice | true_false | short_answer

record user_row =
  user_id :: nat
  user_email :: string
  user_password :: string
  user_name :: string
  user_role :: role
  user_profileImage :: "string option"
  user_bio :: "string option"
  user_createdAt :: timestamp

record course_row =
  course_id :: nat
  course_teacherId :: nat
  course_title :: string
  course_description :: "string option"
  course_category :: "string option"
  course_coverImage :: "string option"
  course_duration :: "string option"
  course_level :: "string option"
  course_createdAt :: timestamp
  course_updatedAt :: timestamp

record lesson_row =
  lesson_id :: nat
  lesson_courseId :: nat
  lesson_title :: string
  lesson_description :: "string option"
  lesson_content :: "string option"
  lesson_videoUrl :: "string option"
  lesson_fileUrl :: "string option"
  lesson_fileType :: "string option"
  lesson_duration :: "int option"
  lesson_sequenceNumber :: int
  lesson_createdAt :: timestamp
  lesson_updatedAt :: timestamp

record quiz_row =
  quiz_id :: nat
  quiz_courseId :: nat
  quiz_title :: string
  quiz_description :: "string option"
  quiz_totalQuestions :: "int option"
  quiz_passingScore :: "real option"
  quiz_timeLimit :: "int option"
  quiz_createdAt :: timestamp
  quiz_updatedAt :: timestamp

record question_row =
  question_id :: nat
  question_quizId :: nat
  question_questionText :: string
  question_questionType :: question_type
  question_options :: "string option"
  question_correctAnswer :: "string option"
  question_sequenceNumber :: "int option"
  question_createdAt :: timestamp

record enrollment_row =
  enr_id :: nat
  enr_studentId :: nat
  enr_courseId :: nat
  enr_enrolledAt :: timestamp
  enr_completionPercentage :: real
  enr_status :: enrollment_status

text \<open>
  \<^verbatim>\<open>lesson_progress.isCompleted\<close> is an \<^verbatim>\<open>INTEGER\<close> in the table and a boolean in the
  \<^verbatim>\<open>LessonProgress\<close> interface; the record is polymorphic in that column.
\<close>

record 'b lesson_progress =
  lp_id :: nat
  lp_studentId :: nat
  lp_lessonId :: nat
  lp_isCompleted :: 'b
  lp_completedAt :: "timestamp option"
  lp_timeSpent :: int

record attempt_row =
  attempt_id :: nat
  attempt_studentId :: nat
  attempt_quizId :: nat
  attempt_score :: "real option"
  attempt_totalQuestions :: "int option"
  attempt_correctAnswers :: "int option"
  attempt_attemptedAt :: timestamp
  attempt_timeSpent :: "int option"

record answer_row =
  answer_id :: nat
  answer_attemptId :: nat
  answer_questionId :: nat
  answer_studentAnswer :: "string option"
  answer_isCorrect :: "int option"

record assignment_row =
  assignment_id :: nat
  assignment_courseId :: nat
  assignment_title :: string
  assignment_description :: "string option"
  assignment_dueDate :: "timestamp option"
  assignment_createdAt :: timestamp

record announcement_row =
  ann_id :: nat
  ann_courseId :: "nat option"
  ann_teacherId :: nat
  ann_title :: string
  ann_content :: string
  ann_attachments :: "string option"
  ann_createdAt :: timestamp
  ann_updatedAt :: timestamp

text \<open>
  The state of the engine: the tables, the \<^verbatim>\<open>AUTOINCREMENT\<close> sequences of the tables
  the modelled operations insert into, the value \<^verbatim>\<open>CURRENT_TIMESTAMP\<close> reads (an input
  of the environment: every result holds for each value of it), and the failures the
  engine is going to raise: \<open>faults\<close> holds one flag per statement still to come
  (\<open>True\<close>: that statement raises), and an exhausted list means no more failures.
\<close>

record database =
  users :: "user_row list"
  courses :: "course_row list"
  lessons :: "lesson_row list"
  quizzes :: "quiz_row list"
  quiz_questions :: "question_row list"
  enrollments :: "enrollment_row list"
  lesson_progress :: "int lesson_progress list"
  quiz_attempts :: "attempt_row list"
  quiz_answers :: "answer_row list"
  assignments :: "assignment_row list"
  announcements :: "announcement_row list"
  seq_users :: nat
  seq_lessons :: nat
  seq_enrollments :: nat
  seq_lesson_progress :: nat
  clock :: timestamp
  faults :: "bool list"

text \<open>
  A JavaScript \<^verbatim>\<open>Error\<close> thrown by a store carries its message; a failure raised by the
  engine (a transport failure or a violated constraint) is \<open>SqliteError\<close>, one raised by
  the key-value storage is \<open>StorageError\<close>.
\<close>

datatype error = Error string | SqliteError | StorageError

definition next_fault :: "database \<Rightarrow> bool \<times> database" where
  "next_fault db =
     (case faults db of [] \<Rightarrow> (False, db) | f # fs \<Rightarrow> (f, db\<lparr>faults := fs\<rparr>))"

text \<open>
  \<^verbatim>\<open>db.runAsync\<close> runs a writing statement. A statement is a function on the tables that
  returns \<open>None\<close> when a constraint rejects it.
\<close>

definition runAsync ::
  "(database \<Rightarrow> database option) \<Rightarrow> database \<Rightarrow> (error + unit) \<times> database" where
  "runAsync stmt db =
     (let (failed, db1) = next_fault db in
      if failed then (Inl SqliteError, db1)
      else (case stmt db1 of
              None \<Rightarrow> (Inl SqliteError, db1)
            | Some db2 \<Rightarrow> (Inr (), db2)))"

text \<open>\<^verbatim>\<open>db.getFirstAsync\<close> returns the first row of a query, or null.\<close>

definition getFirstAsync ::
  "(database \<Rightarrow> 'r list) \<Rightarrow> database \<Rightarrow> (error + 'r option) \<times> database" where
  "getFirstAsync query db =
     (let (failed, db1) = next_fault db in
      if failed then (Inl SqliteError, db1)
      else (Inr (case query db1 of [] \<Rightarrow> None | r # _ \<Rightarrow> Some r), db1))"

text \<open>\<^verbatim>\<open>db.getAllAsync\<close> returns all rows of a query.\<close>

definition getAllAsync ::
  "(database \<Rightarrow> 'r list) \<Rightarrow> database \<Rightarrow> (error + 'r list) \<times> database" where
  "getAllAsync query db =
     (let (failed, db1) = next_fault db in
      if failed then (Inl SqliteError, db1)
      else (Inr (query db1), db1))"

text \<open>
  The next \<^verbatim>\<open>AUTOINCREMENT\<close> key: one more than the largest key the table holds or has
  ever handed out.
\<close>

definition next_id :: "nat \<Rightarrow> nat list \<Rightarrow> nat" where
  "next_id seq ids = Suc (fold max ids seq)"

text \<open>\<^verbatim>\<open>ORDER BY key ASC\<close> and \<^verbatim>\<open>ORDER BY key DESC\<close>; rows with equal keys keep their order.\<close>

definition order_by_asc :: "('r \<Rightarrow> 'k::linorder) \<Rightarrow> 'r list \<Rightarrow> 'r list" where
  "order_by_asc key rows = sort_key key rows"

definition order_by_desc :: "('r \<Rightarrow> 'k::linorder) \<Rightarrow> 'r list \<Rightarrow> 'r list" where
  "order_by_desc key rows = rev (sort_key key (rev rows))"

text \<open>
  \<^verbatim>\<open>GROUP BY key\<close>: the rows of each key, in their order. The order of the groups is
  left open by SQL; the queries that group also sort.
\<close>

definition group_by :: "('r \<Rightarrow> 'k) \<Rightarrow> 'r list \<Rightarrow> 'r list list" where
  "group_by key rows = map (\<lambda>k. filter (\<lambda>r. key r = k) rows) (remdups (map key rows))"

section \<open>The progress store (src/store/progressStore.ts)\<close>

subsection \<open>Its SQL statements\<close>

text \<open>\<^verbatim>\<open>SELECT ... FROM enrollments WHERE studentId = ? AND courseId = ?\<close>\<close>

definition select_enrollments_by_student_course ::
  "nat \<Rightarrow> nat \<Rightarrow> database \<Rightarrow> enrollment_row list" where
  "select_enrollments_by_student_course studentId courseId db =
     filter (\<lambda>e. enr_studentId e = studentId \<and> enr_courseId e = courseId) (enrollments db)"

text \<open>
  \<^verbatim>\<open>UPDATE enrollments SET status = ?, completionPercentage = 0
  WHERE studentId = ? AND courseId = ?\<close>
\<close>

definition update_enrollments_status_reset ::
  "enrollment_status \<Rightarrow> nat \<Rightarrow> nat \<Rightarrow> database \<Rightarrow> database option" where
  "update_enrollments_status_reset status studentId courseId db =
     Some (db\<lparr>enrollments :=
       map (\<lambda>e. if enr_studentId e = studentId \<and> enr_courseId e = courseId
                 then e\<lparr>enr_status := status, enr_completionPercentage := 0\<rparr> else e)
           (enrollments db)\<rparr>)"

text \<open>
  \<^verbatim>\<open>INSERT INTO enrollments (studentId, courseId, completionPercentage, status)
  VALUES (?, ?, ?, ?)\<close>; \<^verbatim>\<open>enrolledAt\<close> takes its default, and
  \<^verbatim>\<open>UNIQUE(studentId, courseId)\<close> rejects a second row of the pair.
\<close>

definition insert_enrollment ::
  "nat \<Rightarrow> nat \<Rightarrow> real \<Rightarrow> enrollment_status \<Rightarrow> database \<Rightarrow> database option" where
  "insert_enrollment studentId courseId completionPercentage status db =
     (if list_ex (\<lambda>e. enr_studentId e = studentId \<and> enr_courseId e = courseId) (enrollments db)
      then None
      else
        let i = next_id (seq_enrollments db) (map enr_id (enrollments db)) in
        Some (db\<lparr>enrollments := enrollments db @
                  [\<lparr>enr_id = i, enr_studentId = studentId, enr_courseId = courseId,
                    enr_enrolledAt = clock db,
                    enr_completionPercentage = completionPercentage, enr_status = status\<rparr>],
                seq_enrollments := i\<rparr>))"

text \<open>\<^verbatim>\<open>DELETE FROM enrollments WHERE studentId = ? AND courseId = ?\<close>\<close>

definition delete_enrollments_by_student_course ::
  "nat \<Rightarrow> nat \<Rightarrow> database \<Rightarrow> database option" where
  "delete_enrollments_by_student_course studentId courseId db =
     Some (db\<lparr>enrollments :=
       filter (\<lambda>e. \<not> (enr_studentId e = studentId \<and> enr_courseId e = courseId))
              (enrollments db)\<rparr>)"

text \<open>\<^verbatim>\<open>SELECT * FROM enrollments WHERE studentId = ? ORDER BY enrolledAt DESC\<close>\<close>

definition select_enrollments_by_student :: "nat \<Rightarrow> database \<Rightarrow> enrollment_row list" where
  "select_enrollments_by_student studentId db =
     order_by_desc enr_enrolledAt (filter (\<lambda>e. enr_studentId e = studentId) (enrollments db))"

text \<open>\<^verbatim>\<open>UPDATE enrollments SET completionPercentage = ? WHERE id = ?\<close>\<close>

definition update_enrollment_percentage :: "real \<Rightarrow> nat \<Rightarrow> database \<Rightarrow> database option" where
  "update_enrollment_percentage completionPercentage enrollmentId db =
     Some (db\<lparr>enrollments :=
       map (\<lambda>e. if enr_id e = enrollmentId
                 then e\<lparr>enr_completionPercentage := completionPercentage\<rparr> else e)
           (enrollments db)\<rparr>)"

text \<open>\<^verbatim>\<open>SELECT ... FROM lesson_progress WHERE studentId = ? AND lessonId = ?\<close>\<close>

definition select_lesson_progress_by_student_lesson ::
  "nat \<Rightarrow> nat \<Rightarrow> database \<Rightarrow> int lesson_progress list" where
  "select_lesson_progress_by_student_lesson studentId lessonId db =
     filter (\<lambda>p. lp_studentId p = studentId \<and> lp_lessonId p = lessonId) (lesson_progress db)"

text \<open>
  \<^verbatim>\<open>UPDATE lesson_progress SET isCompleted = 1, completedAt = CURRENT_TIMESTAMP
  WHERE studentId = ? AND lessonId = ?\<close>
\<close>

definition update_lesson_progress_complete :: "nat \<Rightarrow> nat \<Rightarrow> database \<Rightarrow> database option" where
  "update_lesson_progress_complete studentId lessonId db =
     Some (db\<lparr>lesson_progress :=
       map (\<lambda>p. if lp_studentId p = studentId \<and> lp_lessonId p = lessonId
                 then p\<lparr>lp_isCompleted := 1, lp_completedAt := Some (clock db)\<rparr> else p)
           (lesson_progress db)\<rparr>)"

text \<open>
  \<^verbatim>\<open>UPDATE lesson_progress SET isCompleted = 0, completedAt = NULL
  WHERE studentId = ? AND lessonId = ?\<close>
\<close>

definition update_lesson_progress_incomplete :: "nat \<Rightarrow> nat \<Rightarrow> database \<Rightarrow> database option" where
  "update_lesson_progress_incomplete studentId lessonId db =
     Some (db\<lparr>lesson_progress :=
       map (\<lambda>p. if lp_studentId p = studentId \<and> lp_lessonId p = lessonId
                 then p\<lparr>lp_isCompleted := 0, lp_completedAt := None\<rparr> else p)
           (lesson_progress db)\<rparr>)"

text \<open>
  \<^verbatim>\<open>INSERT INTO lesson_progress (studentId, lessonId, ...) VALUES (?, ?, ...)\<close> with the
  values of \<^verbatim>\<open>isCompleted\<close>, \<^verbatim>\<open>completedAt\<close> and \<^verbatim>\<open>timeSpent\<close> the statement
  gives or the column defaults (0, NULL, 0); \<^verbatim>\<open>UNIQUE(studentId, lessonId)\<close> rejects a
  second row of the pair.
\<close>

definition insert_lesson_progress ::
  "nat \<Rightarrow> nat \<Rightarrow> int \<Rightarrow> timestamp option \<Rightarrow> int \<Rightarrow> database \<Rightarrow> database option" where
  "insert_lesson_progress studentId lessonId isCompleted completedAt timeSpent db =
     (if list_ex (\<lambda>p. lp_studentId p = studentId \<and> lp_lessonId p = lessonId) (lesson_progress db)
      then None
      else
        let i = next_id (seq_lesson_progress db) (map lp_id (lesson_progress db)) in
        Some (db\<lparr>lesson_progress := lesson_progress db @
                  [\<lparr>lp_id = i, lp_studentId = studentId, lp_lessonId = lessonId,
                    lp_isCompleted = isCompleted, lp_completedAt = completedAt,
                    lp_timeSpent = timeSpent\<rparr>],
                seq_lesson_progress := i\<rparr>))"

text \<open>
  \<^verbatim>\<open>UPDATE lesson_progress SET timeSpent = ? WHERE studentId = ? AND lessonId = ?\<close>
\<close>

definition update_lesson_progress_timeSpent ::
  "int \<Rightarrow> nat \<Rightarrow> nat \<Rightarrow> database \<Rightarrow> database option" where
  "update_lesson_progress_timeSpent totalTime studentId lessonId db =
     Some (db\<lparr>lesson_progress :=
       map (\<lambda>p. if lp_studentId p = studentId \<and> lp_lessonId p = lessonId
                 then p\<lparr>lp_timeSpent := totalTime\<rparr> else p)
           (lesson_progress db)\<rparr>)"

text \<open>
  \<^verbatim>\<open>SELECT lp.* FROM lesson_progress lp INNER JOIN lessons l ON lp.lessonId = l.id
  WHERE lp.studentId = ? AND l.courseId = ?\<close>
\<close>

definition select_lesson_progress_by_student_course ::
  "nat \<Rightarrow> nat \<Rightarrow> database \<Rightarrow> int lesson_progress list" where
  "select_lesson_progress_by_student_course studentId courseId db =
     concat (map (\<lambda>p. map (\<lambda>l. p)
                   (filter (\<lambda>l. lp_lessonId p = lesson_id l \<and> lesson_courseId l = courseId)
                           (lessons db)))
                 (filter (\<lambda>p. lp_studentId p = studentId) (lesson_progress db)))"

text \<open>
  The teacher analytics join each enrollment with its student (and course), then
  \<^verbatim>\<open>LEFT JOIN lessons l ON <course>.id = l.courseId
  LEFT JOIN lesson_progress lp ON l.id = lp.lessonId AND lp.studentId = u.id\<close>:
  a course without lessons and a lesson without progress still give one row, with nulls.
\<close>

definition left_join_lessons_progress ::
  "database \<Rightarrow> nat \<Rightarrow> nat \<Rightarrow> (lesson_row option \<times> int lesson_progress option) list" where
  "left_join_lessons_progress db courseId studentId =
     (case filter (\<lambda>l. lesson_courseId l = courseId) (lessons db) of
        [] \<Rightarrow> [(None, None)]
      | ls \<Rightarrow>
          concat (map (\<lambda>l.
            case filter (\<lambda>p. lp_lessonId p = lesson_id l \<and> lp_studentId p = studentId)
                        (lesson_progress db) of
              [] \<Rightarrow> [(Some l, None)]
            | ps \<Rightarrow> map (\<lambda>p. (Some l, Some p)) ps) ls))"

text \<open>\<^verbatim>\<open>COUNT(l.id)\<close> and \<^verbatim>\<open>COUNT(CASE WHEN lp.isCompleted = 1 THEN 1 END)\<close> over a group.\<close>

definition count_lessons :: "(lesson_row option \<times> int lesson_progress option) list \<Rightarrow> nat" where
  "count_lessons g = length (filter (\<lambda>(l, p). l \<noteq> None) g)"

definition count_completed :: "(lesson_row option \<times> int lesson_progress option) list \<Rightarrow> nat" where
  "count_completed g =
     length (filter (\<lambda>(l, p). case p of None \<Rightarrow> False | Some q \<Rightarrow> lp_isCompleted q = 1) g)"

text \<open>\<^verbatim>\<open>SUM(lp.timeSpent)\<close> over a group: null when no row of the group has a progress.\<close>

definition sum_timeSpent :: "(lesson_row option \<times> int lesson_progress option) list \<Rightarrow> int option" where
  "sum_timeSpent g =
     (case concat (map (\<lambda>(l, p). case p of None \<Rightarrow> [] | Some q \<Rightarrow> [lp_timeSpent q]) g) of
        [] \<Rightarrow> None
      | ts \<Rightarrow> Some (sum_list ts))"

record teacher_student_progress =
  tsp_studentId :: nat
  tsp_studentName :: string
  tsp_studentEmail :: string
  tsp_courseId :: nat
  tsp_courseTitle :: string
  tsp_completionPercentage :: real
  tsp_enrolledAt :: timestamp
  tsp_status :: enrollment_status
  tsp_totalLessons :: nat
  tsp_completedLessons :: nat

record course_student_progress =
  csp_studentId :: nat
  csp_studentName :: string
  csp_studentEmail :: string
  csp_completionPercentage :: real
  csp_enrolledAt :: timestamp
  csp_status :: enrollment_status
  csp_totalLessons :: nat
  csp_completedLessons :: nat
  csp_totalTimeSpent :: "int option"

text \<open>
  The query of \<^verbatim>\<open>fetchTeacherStudentProgress\<close>:
  \<^verbatim>\<open>FROM enrollments e INNER JOIN users u ON e.studentId = u.id
  INNER JOIN courses c ON e.courseId = c.id LEFT JOIN ... WHERE c.teacherId = ? AND
  e.status = 'active' GROUP BY u.id, c.id ORDER BY u.name, c.title\<close>.
  The columns of a group that are not aggregates are read from its first row.
\<close>

definition select_teacher_student_progress ::
  "nat \<Rightarrow> database \<Rightarrow> teacher_student_progress list" where
  "select_teacher_student_progress teacherId db =
     (let joined =
        concat (map (\<lambda>e.
          concat (map (\<lambda>u.
            concat (map (\<lambda>c.
              map (\<lambda>lp. (e, u, c, lp))
                  (left_join_lessons_progress db (course_id c) (user_id u)))
              (filter (\<lambda>c. enr_courseId e = course_id c \<and> course_teacherId c = teacherId)
                      (courses db))))
            (filter (\<lambda>u. enr_studentId e = user_id u) (users db))))
          (filter (\<lambda>e. enr_status e = active) (enrollments db)));
        groups = group_by (\<lambda>(e, u, c, lp). (user_id u, course_id c)) joined;
        result = concat (map (\<lambda>g.
          case g of
            [] \<Rightarrow> []
          | (e, u, c, lp) # _ \<Rightarrow>
              [\<lparr>tsp_studentId = user_id u, tsp_studentName = user_name u,
                tsp_studentEmail = user_email u, tsp_courseId = course_id c,
                tsp_courseTitle = course_title c,
                tsp_completionPercentage = enr_completionPercentage e,
                tsp_enrolledAt = enr_enrolledAt e, tsp_status = enr_status e,
                tsp_totalLessons = count_lessons (map (\<lambda>(e, u, c, lp). lp) g),
                tsp_completedLessons = count_completed (map (\<lambda>(e, u, c, lp). lp) g)\<rparr>])
          groups)
      in order_by_asc tsp_studentName (order_by_asc tsp_courseTitle result))"

text \<open>
  The query of \<^verbatim>\<open>fetchCourseStudentProgress\<close>:
  \<^verbatim>\<open>FROM enrollments e INNER JOIN users u ON e.studentId = u.id LEFT JOIN ...
  WHERE e.courseId = ? AND e.status = 'active' GROUP BY u.id ORDER BY u.name\<close>.
\<close>

definition select_course_student_progress ::
  "nat \<Rightarrow> database \<Rightarrow> course_student_progress list" where
  "select_course_student_progress courseId db =
     (let joined =
        concat (map (\<lambda>e.
          concat (map (\<lambda>u.
            map (\<lambda>lp. (e, u, lp))
                (left_join_lessons_progress db (enr_courseId e) (user_id u)))
            (filter (\<lambda>u. enr_studentId e = user_id u) (users db))))
          (filter (\<lambda>e. enr_courseId e = courseId \<and> enr_status e = active) (enrollments db)));
        groups = group_by (\<lambda>(e, u, lp). user_id u) joined;
        result = concat (map (\<lambda>g.
          case g of
            [] \<Rightarrow> []
          | (e, u, lp) # _ \<Rightarrow>
              [\<lparr>csp_studentId = user_id u, csp_studentName = user_name u,
                csp_studentEmail = user_email u,
                csp_completionPercentage = enr_completionPercentage e,
                csp_enrolledAt = enr_enrolledAt e, csp_status = enr_status e,
                csp_totalLessons = count_lessons (map (\<lambda>(e, u, lp). lp) g),
                csp_completedLessons = count_completed (map (\<lambda>(e, u, lp). lp) g),
                csp_totalTimeSpent = sum_timeSpent (map (\<lambda>(e, u, lp). lp) g)\<rparr>])
          groups)
      in order_by_asc csp_studentName result)"

subsection \<open>Its operations\<close>

text \<open>
  The cached state of the store. An operation that calls \<^verbatim>\<open>set\<close> takes and returns
  it; the others work on the database alone. A rejected promise is \<open>Inl\<close>.
\<close>

record progress_state =
  ps_enrollments :: "enrollment_row list"
  ps_lessonProgress :: "bool lesson_progress list"
  ps_isLoading :: bool

definition enrollInCourse :: "nat \<Rightarrow> nat \<Rightarrow> database \<Rightarrow> (error + unit) \<times> database" where
  "enrollInCourse studentId courseId db =
     (case getFirstAsync (select_enrollments_by_student_course studentId courseId) db of
        (Inl err, db1) \<Rightarrow> (Inl err, db1)
      | (Inr (Some existing), db1) \<Rightarrow>
          if enr_status existing = active
          then (Inl (Error ''Already enrolled in this course''), db1)
          else runAsync (update_enrollments_status_reset active studentId courseId) db1
      | (Inr None, db1) \<Rightarrow> runAsync (insert_enrollment studentId courseId 0 active) db1)"

definition unenrollFromCourse :: "nat \<Rightarrow> nat \<Rightarrow> database \<Rightarrow> (error + unit) \<times> database" where
  "unenrollFromCourse studentId courseId db =
     runAsync (delete_enrollments_by_student_course studentId courseId) db"

definition getEnrollment ::
  "nat \<Rightarrow> nat \<Rightarrow> database \<Rightarrow> (error + enrollment_row option) \<times> database" where
  "getEnrollment studentId courseId db =
     (case getFirstAsync (select_enrollments_by_student_course studentId courseId) db of
        (Inl err, db1) \<Rightarrow> (Inr None, db1)
      | (Inr result, db1) \<Rightarrow> (Inr result, db1))"

definition fetchStudentEnrollments ::
  "nat \<Rightarrow> progress_state \<times> database \<Rightarrow> (error + unit) \<times> progress_state \<times> database" where
  "fetchStudentEnrollments studentId = (\<lambda>(st, db).
     let st1 = st\<lparr>ps_isLoading := True\<rparr> in
     case getAllAsync (select_enrollments_by_student studentId) db of
       (Inl err, db1) \<Rightarrow> (Inr (), st1\<lparr>ps_isLoading := False\<rparr>, db1)
     | (Inr result, db1) \<Rightarrow>
         (Inr (), st1\<lparr>ps_enrollments := result, ps_isLoading := False\<rparr>, db1))"

definition updateEnrollmentProgress ::
  "nat \<Rightarrow> real \<Rightarrow> database \<Rightarrow> (error + unit) \<times> database" where
  "updateEnrollmentProgress enrollmentId completionPercentage db =
     runAsync (update_enrollment_percentage completionPercentage enrollmentId) db"

definition markLessonComplete :: "nat \<Rightarrow> nat \<Rightarrow> database \<Rightarrow> (error + unit) \<times> database" where
  "markLessonComplete studentId lessonId db =
     (case getFirstAsync (select_lesson_progress_by_student_lesson studentId lessonId) db of
        (Inl err, db1) \<Rightarrow> (Inl err, db1)
      | (Inr (Some existing), db1) \<Rightarrow>
          runAsync (update_lesson_progress_complete studentId lessonId) db1
      | (Inr None, db1) \<Rightarrow>
          runAsync (insert_lesson_progress studentId lessonId 1 (Some (clock db1)) 0) db1)"

definition markLessonIncomplete :: "nat \<Rightarrow> nat \<Rightarrow> database \<Rightarrow> (error + unit) \<times> database" where
  "markLessonIncomplete studentId lessonId db =
     runAsync (update_lesson_progress_incomplete studentId lessonId) db"

text \<open>The conversion \<^verbatim>\<open>isCompleted: item.isCompleted === 1\<close> of a fetched row.\<close>

definition to_LessonProgress :: "int lesson_progress \<Rightarrow> bool lesson_progress" where
  "to_LessonProgress item =
     \<lparr>lp_id = lp_id item, lp_studentId = lp_studentId item, lp_lessonId = lp_lessonId item,
      lp_isCompleted = (lp_isCompleted item = 1), lp_completedAt = lp_completedAt item,
      lp_timeSpent = lp_timeSpent item\<rparr>"

definition getLessonProgress ::
  "nat \<Rightarrow> nat \<Rightarrow> database \<Rightarrow> (error + bool lesson_progress option) \<times> database" where
  "getLessonProgress studentId lessonId db =
     (case getFirstAsync (select_lesson_progress_by_student_lesson studentId lessonId) db of
        (Inl err, db1) \<Rightarrow> (Inr None, db1)
      | (Inr (Some result), db1) \<Rightarrow> (Inr (Some (to_LessonProgress result)), db1)
      | (Inr None, db1) \<Rightarrow> (Inr None, db1))"

definition fetchCourseLessonProgress ::
  "nat \<Rightarrow> nat \<Rightarrow> progress_state \<times> database \<Rightarrow> (error + unit) \<times> progress_state \<times> database" where
  "fetchCourseLessonProgress studentId courseId = (\<lambda>(st, db).
     let st1 = st\<lparr>ps_isLoading := True\<rparr> in
     case getAllAsync (select_lesson_progress_by_student_course studentId courseId) db of
       (Inl err, db1) \<Rightarrow> (Inr (), st1\<lparr>ps_isLoading := False\<rparr>, db1)
     | (Inr result, db1) \<Rightarrow>
         (Inr (), st1\<lparr>ps_lessonProgress := map to_LessonProgress result,
                       ps_isLoading := False\<rparr>, db1))"

definition updateLessonTimeSpent ::
  "nat \<Rightarrow> nat \<Rightarrow> int \<Rightarrow> database \<Rightarrow> (error + unit) \<times> database" where
  "updateLessonTimeSpent studentId lessonId timeSpent db =
     (case getFirstAsync (select_lesson_progress_by_student_lesson studentId lessonId) db of
        (Inl err, db1) \<Rightarrow> (Inl err, db1)
      | (Inr (Some existing), db1) \<Rightarrow>
          (let totalTime = lp_timeSpent existing + timeSpent in
           runAsync (update_lesson_progress_timeSpent totalTime studentId lessonId) db1)
      | (Inr None, db1) \<Rightarrow>
          runAsync (insert_lesson_progress studentId lessonId 0 None timeSpent) db1)"

definition getCourseProgress :: "nat \<Rightarrow> nat \<Rightarrow> database \<Rightarrow> (error + real) \<times> database" where
  "getCourseProgress studentId courseId db =
     (case getFirstAsync (select_enrollments_by_student_course studentId courseId) db of
        (Inl err, db1) \<Rightarrow> (Inr 0, db1)
      | (Inr (Some result), db1) \<Rightarrow> (Inr (enr_completionPercentage result), db1)
      | (Inr None, db1) \<Rightarrow> (Inr 0, db1))"

definition fetchTeacherStudentProgress ::
  "nat \<Rightarrow> database \<Rightarrow> (error + teacher_student_progress list) \<times> database" where
  "fetchTeacherStudentProgress teacherId db =
     (case getAllAsync (select_teacher_student_progress teacherId) db of
        (Inl err, db1) \<Rightarrow> (Inr [], db1)
      | (Inr result, db1) \<Rightarrow> (Inr result, db1))"

definition fetchCourseStudentProgress ::
  "nat \<Rightarrow> database \<Rightarrow> (error + course_student_progress list) \<times> database" where
  "fetchCourseStudentProgress courseId db =
     (case getAllAsync (select_course_student_progress courseId) db of
        (Inl err, db1) \<Rightarrow> (Inr [], db1)
      | (Inr result, db1) \<Rightarrow> (Inr result, db1))"

section \<open>The course store (src/unnamed/part_000)\<close>

subsection \<open>Its SQL statements\<close>

text \<open>\<^verbatim>\<open>DELETE FROM lessons WHERE courseId = ?\<close>\<close>

definition delete_lessons_by_course :: "nat \<Rightarrow> database \<Rightarrow> database option" where
  "delete_lessons_by_course courseId db =
     Some (db\<lparr>lessons := filter (\<lambda>l. lesson_courseId l \<noteq> courseId) (lessons db)\<rparr>)"

text \<open>\<^verbatim>\<open>DELETE FROM quizzes WHERE courseId = ?\<close>\<close>

definition delete_quizzes_by_course :: "nat \<Rightarrow> database \<Rightarrow> database option" where
  "delete_quizzes_by_course courseId db =
     Some (db\<lparr>quizzes := filter (\<lambda>q. quiz_courseId q \<noteq> courseId) (quizzes db)\<rparr>)"

text \<open>\<^verbatim>\<open>DELETE FROM enrollments WHERE courseId = ?\<close>\<close>

definition delete_enrollments_by_course :: "nat \<Rightarrow> database \<Rightarrow> database option" where
  "delete_enrollments_by_course courseId db =
     Some (db\<lparr>enrollments := filter (\<lambda>e. enr_courseId e \<noteq> courseId) (enrollments db)\<rparr>)"

text \<open>
  \<^verbatim>\<open>DELETE FROM announcements WHERE courseId = ?\<close>: a school-wide announcement, whose
  \<^verbatim>\<open>courseId\<close> is null, matches no course.
\<close>

definition delete_announcements_by_course :: "nat \<Rightarrow> database \<Rightarrow> database option" where
  "delete_announcements_by_course courseId db =
     Some (db\<lparr>announcements :=
       filter (\<lambda>a. ann_courseId a \<noteq> Some courseId) (announcements db)\<rparr>)"

text \<open>\<^verbatim>\<open>DELETE FROM assignments WHERE courseId = ?\<close>\<close>

definition delete_assignments_by_course :: "nat \<Rightarrow> database \<Rightarrow> database option" where
  "delete_assignments_by_course courseId db =
     Some (db\<lparr>assignments :=
       filter (\<lambda>a. assignment_courseId a \<noteq> courseId) (assignments db)\<rparr>)"

text \<open>\<^verbatim>\<open>DELETE FROM courses WHERE id = ?\<close>\<close>

definition delete_course_by_id :: "nat \<Rightarrow> database \<Rightarrow> database option" where
  "delete_course_by_id courseId db =
     Some (db\<lparr>courses := filter (\<lambda>c. course_id c \<noteq> courseId) (courses db)\<rparr>)"

text \<open>\<^verbatim>\<open>SELECT * FROM lessons WHERE courseId = ? ORDER BY sequenceNumber ASC\<close>\<close>

definition select_lessons_by_course :: "nat \<Rightarrow> database \<Rightarrow> lesson_row list" where
  "select_lessons_by_course courseId db =
     order_by_asc lesson_sequenceNumber
       (filter (\<lambda>l. lesson_courseId l = courseId) (lessons db))"

text \<open>
  \<^verbatim>\<open>INSERT INTO lessons (courseId, title, description, content, videoUrl, fileUrl,
  fileType, duration, sequenceNumber) VALUES (?, ?, ?, ?, ?, ?, ?, ?, ?)\<close>; the two
  timestamps take their default.
\<close>

definition insert_lesson ::
  "nat \<Rightarrow> string \<Rightarrow> string option \<Rightarrow> string option \<Rightarrow> string option \<Rightarrow> string option \<Rightarrow>
   string option \<Rightarrow> int option \<Rightarrow> int \<Rightarrow> database \<Rightarrow> database option" where
  "insert_lesson courseId title description content videoUrl fileUrl fileType duration
       sequenceNumber db =
     (let i = next_id (seq_lessons db) (map lesson_id (lessons db)) in
      Some (db\<lparr>lessons := lessons db @
                [\<lparr>lesson_id = i, lesson_courseId = courseId, lesson_title = title,
                  lesson_description = description, lesson_content = content,
                  lesson_videoUrl = videoUrl, lesson_fileUrl = fileUrl,
                  lesson_fileType = fileType, lesson_duration = duration,
                  lesson_sequenceNumber = sequenceNumber,
                  lesson_createdAt = clock db, lesson_updatedAt = clock db\<rparr>],
              seq_lessons := i\<rparr>))"

text \<open>\<^verbatim>\<open>DELETE FROM lesson_progress WHERE lessonId = ?\<close>\<close>

definition delete_lesson_progress_by_lesson :: "nat \<Rightarrow> database \<Rightarrow> database option" where
  "delete_lesson_progress_by_lesson lessonId db =
     Some (db\<lparr>lesson_progress :=
       filter (\<lambda>p. lp_lessonId p \<noteq> lessonId) (lesson_progress db)\<rparr>)"

text \<open>\<^verbatim>\<open>DELETE FROM lessons WHERE id = ?\<close>\<close>

definition delete_lesson_by_id :: "nat \<Rightarrow> database \<Rightarrow> database option" where
  "delete_lesson_by_id lessonId db =
     Some (db\<lparr>lessons := filter (\<lambda>l. lesson_id l \<noteq> lessonId) (lessons db)\<rparr>)"

subsection \<open>Its operations\<close>

record course_state =
  cs_courses :: "course_row list"
  cs_lessons :: "lesson_row list"
  cs_currentCourse :: "course_row option"
  cs_isLoading :: bool

text \<open>
  \<^verbatim>\<open>deleteCourse\<close> awaits six statements in a row inside one \<^verbatim>\<open>try\<close>; the first
  that raises ends the sequence, and the \<^verbatim>\<open>catch\<close> throws the error on.
\<close>

definition deleteCourse :: "nat \<Rightarrow> database \<Rightarrow> (error + unit) \<times> database" where
  "deleteCourse courseId db =
     (case runAsync (delete_lessons_by_course courseId) db of
        (Inl err, db1) \<Rightarrow> (Inl err, db1)
      | (Inr _, db1) \<Rightarrow>
     (case runAsync (delete_quizzes_by_course courseId) db1 of
        (Inl err, db2) \<Rightarrow> (Inl err, db2)
      | (Inr _, db2) \<Rightarrow>
     (case runAsync (delete_enrollments_by_course courseId) db2 of
        (Inl err, db3) \<Rightarrow> (Inl err, db3)
      | (Inr _, db3) \<Rightarrow>
     (case runAsync (delete_announcements_by_course courseId) db3 of
        (Inl err, db4) \<Rightarrow> (Inl err, db4)
      | (Inr _, db4) \<Rightarrow>
     (case runAsync (delete_assignments_by_course courseId) db4 of
        (Inl err, db5) \<Rightarrow> (Inl err, db5)
      | (Inr _, db5) \<Rightarrow>
     runAsync (delete_course_by_id courseId) db5)))))"

definition fetchLessons ::
  "nat \<Rightarrow> course_state \<times> database \<Rightarrow> (error + unit) \<times> course_state \<times> database" where
  "fetchLessons courseId = (\<lambda>(st, db).
     let st1 = st\<lparr>cs_isLoading := True\<rparr> in
     case getAllAsync (select_lessons_by_course courseId) db of
       (Inl err, db1) \<Rightarrow> (Inr (), st1\<lparr>cs_isLoading := False\<rparr>, db1)
     | (Inr result, db1) \<Rightarrow> (Inr (), st1\<lparr>cs_lessons := result, cs_isLoading := False\<rparr>, db1))"

text \<open>
  The argument of \<^verbatim>\<open>createLesson\<close>, a \<^verbatim>\<open>Lesson\<close> without its key and timestamps; an
  optional field that is absent is \<open>None\<close>.
\<close>

record new_lesson =
  nl_courseId :: nat
  nl_title :: string
  nl_description :: "string option"
  nl_content :: "string option"
  nl_videoUrl :: "string option"
  nl_fileUrl :: "string option"
  nl_fileType :: "string option"
  nl_duration :: "int option"
  nl_sequenceNumber :: int

text \<open>
  \<^verbatim>\<open>x || null\<close>: an absent value and a falsy one (the empty string, the number 0) both
  become null. \<^verbatim>\<open>lesson.sequenceNumber || 0\<close> is the number itself.
\<close>

definition string_or_null :: "string option \<Rightarrow> string option" where
  "string_or_null x = (case x of None \<Rightarrow> None | Some v \<Rightarrow> if v = [] then None else Some v)"

definition number_or_null :: "int option \<Rightarrow> int option" where
  "number_or_null x = (case x of None \<Rightarrow> None | Some v \<Rightarrow> if v = 0 then None else Some v)"

definition number_or_zero :: "int \<Rightarrow> int" where
  "number_or_zero x = (if x = 0 then 0 else x)"

definition createLesson :: "new_lesson \<Rightarrow> database \<Rightarrow> (error + unit) \<times> database" where
  "createLesson lesson db =
     runAsync (insert_lesson (nl_courseId lesson) (nl_title lesson)
                 (string_or_null (nl_description lesson))
                 (string_or_null (nl_content lesson))
                 (string_or_null (nl_videoUrl lesson))
                 (string_or_null (nl_fileUrl lesson))
                 (string_or_null (nl_fileType lesson))
                 (number_or_null (nl_duration lesson))
                 (number_or_zero (nl_sequenceNumber lesson))) db"

definition deleteLesson :: "nat \<Rightarrow> database \<Rightarrow> (error + unit) \<times> database" where
  "deleteLesson lessonId db =
     (case runAsync (delete_lesson_progress_by_lesson lessonId) db of
        (Inl err, db1) \<Rightarrow> (Inl err, db1)
      | (Inr _, db1) \<Rightarrow> runAsync (delete_lesson_by_id lessonId) db1)"

section \<open>The quiz store (second part of src/store/announcementStore.ts)\<close>

text \<open>\<^verbatim>\<open>DELETE FROM quiz_questions WHERE quizId = ?\<close>\<close>

definition delete_questions_by_quiz :: "nat \<Rightarrow> database \<Rightarrow> database option" where
  "delete_questions_by_quiz quizId db =
     Some (db\<lparr>quiz_questions :=
       filter (\<lambda>q. question_quizId q \<noteq> quizId) (quiz_questions db)\<rparr>)"

text \<open>\<^verbatim>\<open>DELETE FROM quiz_attempts WHERE quizId = ?\<close>\<close>

definition delete_attempts_by_quiz :: "nat \<Rightarrow> database \<Rightarrow> database option" where
  "delete_attempts_by_quiz quizId db =
     Some (db\<lparr>quiz_attempts :=
       filter (\<lambda>a. attempt_quizId a \<noteq> quizId) (quiz_attempts db)\<rparr>)"

text \<open>\<^verbatim>\<open>DELETE FROM quizzes WHERE id = ?\<close>\<close>

definition delete_quiz_by_id :: "nat \<Rightarrow> database \<Rightarrow> database option" where
  "delete_quiz_by_id quizId db =
     Some (db\<lparr>quizzes := filter (\<lambda>q. quiz_id q \<noteq> quizId) (quizzes db)\<rparr>)"

text \<open>\<^verbatim>\<open>DELETE FROM quiz_answers WHERE questionId = ?\<close>\<close>

definition delete_answers_by_question :: "nat \<Rightarrow> database \<Rightarrow> database option" where
  "delete_answers_by_question questionId db =
     Some (db\<lparr>quiz_answers :=
       filter (\<lambda>a. answer_questionId a \<noteq> questionId) (quiz_answers db)\<rparr>)"

text \<open>\<^verbatim>\<open>DELETE FROM quiz_questions WHERE id = ?\<close>\<close>

definition delete_question_by_id :: "nat \<Rightarrow> database \<Rightarrow> database option" where
  "delete_question_by_id questionId db =
     Some (db\<lparr>quiz_questions :=
       filter (\<lambda>q. question_id q \<noteq> questionId) (quiz_questions db)\<rparr>)"

definition deleteQuiz :: "nat \<Rightarrow> database \<Rightarrow> (error + unit) \<times> database" where
  "deleteQuiz quizId db =
     (case runAsync (delete_questions_by_quiz quizId) db of
        (Inl err, db1) \<Rightarrow> (Inl err, db1)
      | (Inr _, db1) \<Rightarrow>
     (case runAsync (delete_attempts_by_quiz quizId) db1 of
        (Inl err, db2) \<Rightarrow> (Inl err, db2)
      | (Inr _, db2) \<Rightarrow> runAsync (delete_quiz_by_id quizId) db2))"

definition deleteQuestion :: "nat \<Rightarrow> database \<Rightarrow> (error + unit) \<times> database" where
  "deleteQuestion questionId db =
     (case runAsync (delete_answers_by_question questionId) db of
        (Inl err, db1) \<Rightarrow> (Inl err, db1)
      | (Inr _, db1) \<Rightarrow> runAsync (delete_question_by_id questionId) db1)"

section \<open>The user and session store (src/store/authStore.ts)\<close>



record auth_state =
  auth_user :: "user_row option"
  auth_isLoading :: bool
  auth_isLoggedIn :: bool




text \<open>\<^verbatim>\<open>SELECT id FROM users WHERE email = ?\<close>\<close>

definition select_users_by_email :: "string \<Rightarrow> database \<Rightarrow> user_row list" where
  "select_users_by_email email db = filter (\<lambda>u. user_email u = email) (users db)"

text \<open>
  \<^verbatim>\<open>INSERT INTO users (email, password, name, role) VALUES (?, ?, ?, ?)\<close>; the column
  \<^verbatim>\<open>email\<close> is \<^verbatim>\<open>UNIQUE\<close>.
\<close>

definition insert_user ::
  "string \<Rightarrow> string \<Rightarrow> string \<Rightarrow> role \<Rightarrow> database \<Rightarrow> database option" where
  "insert_user email password name r db =
     (if list_ex (\<lambda>u. user_email u = email) (users db) then None
      else
        let i = next_id (seq_users db) (map user_id (users db)) in
        Some (db\<lparr>users := users db @
                  [\<lparr>user_id = i, user_email = email, user_password = password,
                    user_name = name, user_role = r, user_profileImage = None,
                    user_bio = None, user_createdAt = clock db\<rparr>],
                seq_users := i\<rparr>))"


definition signup ::
  "string \<Rightarrow> string \<Rightarrow> string \<Rightarrow> role \<Rightarrow> auth_state \<times> database \<Rightarrow>
   (error + unit) \<times> auth_state \<times> database" where
  "signup email password name r = (\<lambda>(st, db).
     let st1 = st\<lparr>auth_isLoading := True\<rparr> in
     case getFirstAsync (select_users_by_email email) db of
       (Inl err, db1) \<Rightarrow> (Inl err, st1\<lparr>auth_isLoading := False\<rparr>, db1)
     | (Inr (Some existing), db1) \<Rightarrow>
         (Inl (Error ''Email already registered''), st1\<lparr>auth_isLoading := False\<rparr>, db1)
     | (Inr None, db1) \<Rightarrow>
         (case runAsync (insert_user email password name r) db1 of
            (Inl err, db2) \<Rightarrow> (Inl err, st1\<lparr>auth_isLoading := False\<rparr>, db2)
          | (Inr _, db2) \<Rightarrow> (Inr (), st1\<lparr>auth_isLoading := False\<rparr>, db2)))"

section \<open>Conditions on a state\<close>

text \<open>The engine raises no failure during the next \<open>n\<close> statements.\<close>

definition engine_ok :: "nat \<Rightarrow> database \<Rightarrow> bool" where
  "engine_ok n db = (True \<notin> set (take n (faults db)))"


text \<open>
  What the \<^verbatim>\<open>UNIQUE\<close> constraints of the schema maintain: one user per email, one
  enrollment per (student, course), one progress row per (student, lesson).
\<close>

definition users_unique :: "database \<Rightarrow> bool" where
  "users_unique db = distinct (map user_email (users db))"

definition enrollments_unique :: "database \<Rightarrow> bool" where
  "enrollments_unique db =
     distinct (map (\<lambda>e. (enr_studentId e, enr_courseId e)) (enrollments db))"

definition lesson_progress_unique :: "database \<Rightarrow> bool" where
  "lesson_progress_unique db =
     distinct (map (\<lambda>p. (lp_studentId p, lp_lessonId p)) (lesson_progress db))"

section \<open>Observations of a state\<close>

text \<open>The keys of the rows of the five tables below a course, and of \<^verbatim>\<open>courses\<close>.\<close>

definition course_rows ::
  "database \<Rightarrow> nat list \<times> nat list \<times> nat list \<times> nat list \<times> nat list \<times> nat list" where
  "course_rows db =
     (map lesson_id (lessons db), map quiz_id (quizzes db), map enr_id (enrollments db),
      map ann_id (announcements db), map assignment_id (assignments db),
      map course_id (courses db))"

text \<open>
  The course, title and sequence number of a lesson row, and of an argument of
  \<^verbatim>\<open>createLesson\<close>; and the lessons that \<^verbatim>\<open>fetchLessons\<close> leaves in the store.
\<close>

definition lesson_columns :: "lesson_row \<Rightarrow> nat \<times> string \<times> int" where
  "lesson_columns l = (lesson_courseId l, lesson_title l, lesson_sequenceNumber l)"

definition new_lesson_columns :: "new_lesson \<Rightarrow> nat \<times> string \<times> int" where
  "new_lesson_columns l = (nl_courseId l, nl_title l, nl_sequenceNumber l)"

definition fetched_lessons :: "nat \<Rightarrow> course_state \<Rightarrow> database \<Rightarrow> lesson_row list" where
  "fetched_lessons courseId st db = cs_lessons (fst (snd (fetchLessons courseId (st, db))))"

text \<open>The database after \<^verbatim>\<open>createLesson\<close> has been called for each lesson of a list, in order.\<close>

definition after_createLessons :: "new_lesson list \<Rightarrow> database \<Rightarrow> database" where
  "after_createLessons ls db = fold (\<lambda>l d. snd (createLesson l d)) ls db"

section \<open>Example states\<close>

text \<open>An empty database on which the engine never fails, and one whose next statement fails.\<close>

definition empty_db :: database where
  "empty_db =
     \<lparr>users = [], courses = [], lessons = [], quizzes = [], quiz_questions = [],
      enrollments = [], lesson_progress = [], quiz_attempts = [], quiz_answers = [],
      assignments = [], announcements = [], seq_users = 0, seq_lessons = 0,
      seq_enrollments = 0, seq_lesson_progress = 0, clock = 1000, faults = []\<rparr>"

definition failing_db :: database where
  "failing_db = empty_db\<lparr>faults := [True]\<rparr>"

text \<open>One enrollment of student 7 in course 3, with a given status.\<close>

definition enrolled_db :: "enrollment_status \<Rightarrow> database" where
  "enrolled_db status =
     empty_db\<lparr>enrollments :=
       [\<lparr>enr_id = 1, enr_studentId = 7, enr_courseId = 3, enr_enrolledAt = 500,
         enr_completionPercentage = 40, enr_status = status\<rparr>],
       seq_enrollments := 1\<rparr>"

text \<open>One progress row of student 7 for lesson 5: completed, with 30 seconds spent.\<close>

definition progress_db :: database where
  "progress_db =
     empty_db\<lparr>lesson_progress :=
       [\<lparr>lp_id = 1, lp_studentId = 7, lp_lessonId = 5, lp_isCompleted = 1,
         lp_completedAt = Some 900, lp_timeSpent = 30\<rparr>],
       seq_lesson_progress := 1\<rparr>"

text \<open>
  A populated database: courses 3 and 4; three lessons, one quiz, one enrollment, one
  announcement and one assignment of course 3 (and a lesson of course 4, and a
  school-wide announcement); and, below the lessons and the quiz of course 3, one
  progress row, one question, one attempt and one answer.
\<close>

definition course_db :: database where
  "course_db =
     empty_db\<lparr>
       courses :=
         [\<lparr>course_id = 3, course_teacherId = 1, course_title = ''Algebra I'',
           course_description = None, course_category = None, course_coverImage = None,
           course_duration = None, course_level = None, course_createdAt = 100,
           course_updatedAt = 100\<rparr>,
          \<lparr>course_id = 4, course_teacherId = 1, course_title = ''Biology'',
           course_description = None, course_category = None, course_coverImage = None,
           course_duration = None, course_level = None, course_createdAt = 110,
           course_updatedAt = 110\<rparr>],
       lessons :=
         [\<lparr>lesson_id = 1, lesson_courseId = 3, lesson_title = ''Second'',
           lesson_description = None, lesson_content = None, lesson_videoUrl = None,
           lesson_fileUrl = None, lesson_fileType = None, lesson_duration = None,
           lesson_sequenceNumber = 2, lesson_createdAt = 120, lesson_updatedAt = 120\<rparr>,
          \<lparr>lesson_id = 2, lesson_courseId = 4, lesson_title = ''Cells'',
           lesson_description = None, lesson_content = None, lesson_videoUrl = None,
           lesson_fileUrl = None, lesson_fileType = None, lesson_duration = None,
           lesson_sequenceNumber = 0, lesson_createdAt = 130, lesson_updatedAt = 130\<rparr>,
          \<lparr>lesson_id = 3, lesson_courseId = 3, lesson_title = ''First'',
           lesson_description = None, lesson_content = None, lesson_videoUrl = None,
           lesson_fileUrl = None, lesson_fileType = None, lesson_duration = None,
           lesson_sequenceNumber = 1, lesson_createdAt = 140, lesson_updatedAt = 140\<rparr>],
       quizzes :=
         [\<lparr>quiz_id = 1, quiz_courseId = 3, quiz_title = ''Quiz'', quiz_description = None,
           quiz_totalQuestions = Some 1, quiz_passingScore = Some 50, quiz_timeLimit = None,
           quiz_createdAt = 150, quiz_updatedAt = 150\<rparr>],
       quiz_questions :=
         [\<lparr>question_id = 1, question_quizId = 1, question_questionText = ''2 + 2 = 4'',
           question_questionType = true_false, question_options = None,
           question_correctAnswer = Some ''True'', question_sequenceNumber = Some 1,
           question_createdAt = 160\<rparr>],
       enrollments :=
         [\<lparr>enr_id = 1, enr_studentId = 7, enr_courseId = 3, enr_enrolledAt = 500,
           enr_completionPercentage = 40, enr_status = active\<rparr>],
       lesson_progress :=
         [\<lparr>lp_id = 1, lp_studentId = 7, lp_lessonId = 1, lp_isCompleted = 1,
           lp_completedAt = Some 900, lp_timeSpent = 30\<rparr>],
       quiz_attempts :=
         [\<lparr>attempt_id = 1, attempt_studentId = 7, attempt_quizId = 1,
           attempt_score = Some 100, attempt_totalQuestions = Some 1,
           attempt_correctAnswers = Some 1, attempt_attemptedAt = 600,
           attempt_timeSpent = Some 20\<rparr>],
       quiz_answers :=
         [\<lparr>answer_id = 1, answer_attemptId = 1, answer_questionId = 1,
           answer_studentAnswer = Some ''True'', answer_isCorrect = Some 1\<rparr>],
       assignments :=
         [\<lparr>assignment_id = 1, assignment_courseId = 3, assignment_title = ''Homework'',
           assignment_description = None, assignment_dueDate = None,
           assignment_createdAt = 170\<rparr>],
       announcements :=
         [\<lparr>ann_id = 1, ann_courseId = Some 3, ann_teacherId = 1, ann_title = ''Exam'',
           ann_content = ''Friday'', ann_attachments = None, ann_createdAt = 180,
           ann_updatedAt = 180\<rparr>,
          \<lparr>ann_id = 2, ann_courseId = None, ann_teacherId = 1, ann_title = ''Holiday'',
           ann_content = ''Monday'', ann_attachments = None, ann_createdAt = 190,
           ann_updatedAt = 190\<rparr>],
       seq_lessons := 3, seq_enrollments := 1, seq_lesson_progress := 1\<rparr>"

text \<open>
  The users that \<^verbatim>\<open>seedDatabase\<close> inserts, an empty working key-value storage, and
  the initial state of the session store.
\<close>

definition seeded_db :: database where
  "seeded_db =
     empty_db\<lparr>users :=
       [\<lparr>user_id = 1, user_email = ''teacher1@school.com'', user_password = ''password123'',
         user_name = ''John Smith'', user_role = teacher, user_profileImage = None,
         user_bio = Some ''Mathematics Teacher'', user_createdAt = 10\<rparr>,
        \<lparr>user_id = 2, user_email = ''teacher2@school.com'', user_password = ''password123'',
         user_name = ''Sarah Johnson'', user_role = teacher, user_profileImage = None,
         user_bio = Some ''Science Teacher'', user_createdAt = 10\<rparr>,
        \<lparr>user_id = 3, user_email = ''student1@school.com'', user_password = ''password123'',
         user_name = ''Alice Brown'', user_role = student, user_profileImage = None,
         user_bio = Some ''Grade 10 Student'', user_createdAt = 10\<rparr>,
        \<lparr>user_id = 4, user_email = ''student2@school.com'', user_password = ''password123'',
         user_name = ''Bob Wilson'', user_role = student, user_profileImage = None,
         user_bio = Some ''Grade 10 Student'', user_createdAt = 10\<rparr>],
       seq_users := 4\<rparr>"


definition logged_out :: auth_state where
  "logged_out = \<lparr>auth_user = None, auth_isLoading = False, auth_isLoggedIn = False\<rparr>"

text \<open>The initial state of the course store.\<close>

definition no_course_state :: course_state where
  "no_course_state =
     \<lparr>cs_courses = [], cs_lessons = [], cs_currentCourse = None, cs_isLoading = False\<rparr>"

text \<open>Two lessons of course 3, with the sequence numbers 2 and 1.\<close>

definition lesson_two :: new_lesson where
  "lesson_two =
     \<lparr>nl_courseId = 3, nl_title = ''lesson-2'', nl_description = None, nl_content = None,
      nl_videoUrl = None, nl_fileUrl = None, nl_fileType = None, nl_duration = None,
      nl_sequenceNumber = 2\<rparr>"

definition lesson_one :: new_lesson where
  "lesson_one =
     \<lparr>nl_courseId = 3, nl_title = ''lesson-1'', nl_description = None, nl_content = None,
      nl_videoUrl = None, nl_fileUrl = None, nl_fileType = None, nl_duration = None,
      nl_sequenceNumber = 1\<rparr>"

text \<open>A store state whose cache still holds an enrollment and a progress row.\<close>

definition cached_state :: progress_state where
  "cached_state =
     \<lparr>ps_enrollments =
        [\<lparr>enr_id = 9, enr_studentId = 8, enr_courseId = 4, enr_enrolledAt = 300,
          enr_completionPercentage = 75, enr_status = active\<rparr>],
      ps_lessonProgress =
        [\<lparr>lp_id = 5, lp_studentId = 8, lp_lessonId = 2, lp_isCompleted = True,
          lp_completedAt = Some 400, lp_timeSpent = 60\<rparr>],
      ps_isLoading = False\<rparr>"

section \<open>The engine, when it works and when it fails\<close>

lemma next_fault_ok: "engine_ok (Suc n) db \<Longrightarrow> next_fault db = (False, db\<lparr>faults := tl (faults db)\<rparr>)"
  by (cases "faults db") (auto simp: engine_ok_def next_fault_def)

lemma engine_ok_tl: "engine_ok (Suc n) db \<Longrightarrow> engine_ok n (db\<lparr>faults := tl (faults db)\<rparr>)"
  by (cases "faults db") (auto simp: engine_ok_def)

lemma next_fault_fails: "faults db = True # fs \<Longrightarrow> next_fault db = (True, db\<lparr>faults := fs\<rparr>)"
  by (simp add: next_fault_def)

lemma engine_ok_mono: "m \<le> n \<Longrightarrow> engine_ok n db \<Longrightarrow> engine_ok m db"
  using set_take_subset_set_take[of m n "faults db"] by (auto simp: engine_ok_def)

lemma engine_ok_2: "engine_ok 2 db \<Longrightarrow> engine_ok (Suc (Suc 0)) db"
  by (simp add: numeral_2_eq_2)

lemma drop_2_tl: "drop 2 xs = tl (tl xs)"
  by (simp add: numeral_2_eq_2 drop_Suc)

lemma runAsync_ok:
  "engine_ok (Suc n) db \<Longrightarrow>
   runAsync stmt db =
     (case stmt (db\<lparr>faults := tl (faults db)\<rparr>) of
        None \<Rightarrow> (Inl SqliteError, db\<lparr>faults := tl (faults db)\<rparr>)
      | Some db2 \<Rightarrow> (Inr (), db2))"
  by (simp add: runAsync_def next_fault_ok)

lemma getFirstAsync_ok:
  "engine_ok (Suc n) db \<Longrightarrow>
   getFirstAsync query db =
     (Inr (case query (db\<lparr>faults := tl (faults db)\<rparr>) of [] \<Rightarrow> None | r # _ \<Rightarrow> Some r),
      db\<lparr>faults := tl (faults db)\<rparr>)"
  by (simp add: getFirstAsync_def next_fault_ok)

lemma getAllAsync_ok:
  "engine_ok (Suc n) db \<Longrightarrow>
   getAllAsync query db =
     (Inr (query (db\<lparr>faults := tl (faults db)\<rparr>)), db\<lparr>faults := tl (faults db)\<rparr>)"
  by (simp add: getAllAsync_def next_fault_ok)

lemma runAsync_fails: "faults db = True # fs \<Longrightarrow> runAsync stmt db = (Inl SqliteError, db\<lparr>faults := fs\<rparr>)"
  by (simp add: runAsync_def next_fault_fails)

lemma getFirstAsync_fails: "faults db = True # fs \<Longrightarrow> getFirstAsync q db = (Inl SqliteError, db\<lparr>faults := fs\<rparr>)"
  by (simp add: getFirstAsync_def next_fault_fails)

lemma getAllAsync_fails: "faults db = True # fs \<Longrightarrow> getAllAsync q db = (Inl SqliteError, db\<lparr>faults := fs\<rparr>)"
  by (simp add: getAllAsync_def next_fault_fails)

lemma filter_unique_key:
  "distinct (map key xs) \<Longrightarrow> e \<in> set xs \<Longrightarrow> filter (\<lambda>x. key x = key e) xs = [e]"
proof (induction xs)
  case Nil
  then show ?case by simp
next
  case (Cons x xs)
  show ?case
  proof (cases "x = e")
    case True
    have "\<forall>y \<in> set xs. key y \<noteq> key e" using Cons.prems True by (auto simp: image_iff)
    then have "filter (\<lambda>x. key x = key e) xs = []" by (simp add: filter_empty_conv)
    with True show ?thesis by simp
  next
    case False
    with Cons.prems have "e \<in> set xs" "distinct (map key xs)" "key x \<noteq> key e" by (auto simp: image_iff)
    with Cons.IH show ?thesis by simp
  qed
qed

lemma map_unique_key:
  assumes "distinct (map key xs)" "e \<in> set xs"
  shows "map (\<lambda>x. if key x = key e then f x else x) xs = map (\<lambda>x. if x = e then f e else x) xs"
proof (rule map_cong[OF refl])
  fix x assume "x \<in> set xs"
  with assms have "key x = key e \<longleftrightarrow> x = e"
    by (auto simp: distinct_map dest: inj_onD)
  then show "(if key x = key e then f x else x) = (if x = e then f e else x)" by auto
qed

section \<open>Enrollment (progress store)\<close>

lemma select_enrollment_unique:
  assumes "enrollments_unique db" "e \<in> set (enrollments db)"
    "enr_studentId e = s" "enr_courseId e = c"
  shows "select_enrollments_by_student_course s c (db\<lparr>faults := fs\<rparr>) = [e]"
proof -
  have "filter (\<lambda>x. (enr_studentId x, enr_courseId x) = (enr_studentId e, enr_courseId e))
          (enrollments db) = [e]"
    using assms(1,2) unfolding enrollments_unique_def by (rule filter_unique_key)
  with assms(3,4) show ?thesis
    by (simp add: select_enrollments_by_student_course_def)
qed

lemma select_enrollment_none:
  assumes "\<forall>e \<in> set (enrollments db). \<not> (enr_studentId e = s \<and> enr_courseId e = c)"
  shows "select_enrollments_by_student_course s c (db\<lparr>faults := fs\<rparr>) = []"
  using assms by (simp add: select_enrollments_by_student_course_def filter_empty_conv)

lemma enrollInCourse_active:
  assumes "engine_ok (Suc n) db" "enrollments_unique db" "e \<in> set (enrollments db)"
    "enr_studentId e = s" "enr_courseId e = c" "enr_status e = active"
  shows "enrollInCourse s c db =
           (Inl (Error ''Already enrolled in this course''), db\<lparr>faults := tl (faults db)\<rparr>)"
  using assms
  by (simp add: enrollInCourse_def getFirstAsync_ok select_enrollment_unique)

lemma enrollInCourse_reactivate:
  assumes ok: "engine_ok (Suc (Suc n)) db" and uniq: "enrollments_unique db"
    and e: "e \<in> set (enrollments db)" "enr_studentId e = s" "enr_courseId e = c"
    and st: "enr_status e \<noteq> active"
  shows "enrollInCourse s c db =
           (Inr (), db\<lparr>enrollments :=
                        map (\<lambda>x. if x = e
                                  then e\<lparr>enr_status := active, enr_completionPercentage := 0\<rparr>
                                  else x) (enrollments db),
                      faults := drop 2 (faults db)\<rparr>)"
proof -
  let ?db1 = "db\<lparr>faults := tl (faults db)\<rparr>"
  have ok1: "engine_ok (Suc n) ?db1" using ok by (rule engine_ok_tl)
  have m: "map (\<lambda>x. if (enr_studentId x, enr_courseId x) = (enr_studentId e, enr_courseId e)
                     then x\<lparr>enr_status := active, enr_completionPercentage := 0\<rparr> else x)
               (enrollments db)
           = map (\<lambda>x. if x = e then e\<lparr>enr_status := active, enr_completionPercentage := 0\<rparr>
                       else x) (enrollments db)"
    using uniq e(1) unfolding enrollments_unique_def by (rule map_unique_key)
  show ?thesis
    using st m e(2,3)
    by (simp add: enrollInCourse_def getFirstAsync_ok[OF ok]
        select_enrollment_unique[OF uniq e] runAsync_ok[OF ok1]
        update_enrollments_status_reset_def drop_2_tl)
qed

lemma enrollInCourse_fresh:
  assumes ok: "engine_ok (Suc (Suc n)) db"
    and none: "\<forall>e \<in> set (enrollments db). \<not> (enr_studentId e = s \<and> enr_courseId e = c)"
  shows "enrollInCourse s c db =
           (Inr (), db\<lparr>enrollments := enrollments db @
                        [\<lparr>enr_id = next_id (seq_enrollments db) (map enr_id (enrollments db)),
                          enr_studentId = s, enr_courseId = c, enr_enrolledAt = clock db,
                          enr_completionPercentage = 0, enr_status = active\<rparr>],
                      seq_enrollments := next_id (seq_enrollments db) (map enr_id (enrollments db)),
                      faults := drop 2 (faults db)\<rparr>)"
proof -
  let ?db1 = "db\<lparr>faults := tl (faults db)\<rparr>"
  have ok1: "engine_ok (Suc n) ?db1" using ok by (rule engine_ok_tl)
  show ?thesis
    using none
    by (simp add: enrollInCourse_def getFirstAsync_ok[OF ok]
        select_enrollment_none[OF none] runAsync_ok[OF ok1]
        insert_enrollment_def list_ex_iff Let_def drop_2_tl)
qed

text \<open>
  Claim C1. While the engine works and the pair (student, course) is unique in
  \<^verbatim>\<open>enrollments\<close>: when the row of the pair is active, \<^verbatim>\<open>enrollInCourse\<close> fails with
  the already-enrolled error and leaves every table as it was; when it is dropped, the
  call succeeds, that row becomes active with percentage 0 and no row is added; when
  the pair has no row, a fresh row, active with percentage 0, is appended.
\<close>

theorem enrollInCourse_transitions:
  assumes ok: "engine_ok 2 db" and uniq: "enrollments_unique db"
  shows
    "(\<forall>e \<in> set (enrollments db).
        enr_studentId e = s \<and> enr_courseId e = c \<and> enr_status e = active \<longrightarrow>
        enrollInCourse s c db =
          (Inl (Error ''Already enrolled in this course''), db\<lparr>faults := tl (faults db)\<rparr>)) \<and>
     (\<forall>e \<in> set (enrollments db).
        enr_studentId e = s \<and> enr_courseId e = c \<and> enr_status e = dropped \<longrightarrow>
        enrollInCourse s c db =
          (Inr (), db\<lparr>enrollments :=
                       map (\<lambda>x. if x = e
                                 then e\<lparr>enr_status := active, enr_completionPercentage := 0\<rparr>
                                 else x) (enrollments db),
                     faults := drop 2 (faults db)\<rparr>)) \<and>
     ((\<forall>e \<in> set (enrollments db). \<not> (enr_studentId e = s \<and> enr_courseId e = c)) \<longrightarrow>
        enrollInCourse s c db =
          (Inr (), db\<lparr>enrollments := enrollments db @
                       [\<lparr>enr_id = next_id (seq_enrollments db) (map enr_id (enrollments db)),
                         enr_studentId = s, enr_courseId = c, enr_enrolledAt = clock db,
                         enr_completionPercentage = 0, enr_status = active\<rparr>],
                     seq_enrollments := next_id (seq_enrollments db) (map enr_id (enrollments db)),
                     faults := drop 2 (faults db)\<rparr>))"
proof -
  have ok2: "engine_ok (Suc (Suc 0)) db" using ok by (rule engine_ok_2)
  have ok1: "engine_ok (Suc 0) db" using ok2 by (rule engine_ok_mono[rotated]) simp
  show ?thesis
  proof (intro conjI ballI impI)
    fix e assume "e \<in> set (enrollments db)"
      "enr_studentId e = s \<and> enr_courseId e = c \<and> enr_status e = active"
    then show "enrollInCourse s c db =
          (Inl (Error ''Already enrolled in this course''), db\<lparr>faults := tl (faults db)\<rparr>)"
      using enrollInCourse_active[OF ok1 uniq] by blast
  next
    fix e assume "e \<in> set (enrollments db)"
      "enr_studentId e = s \<and> enr_courseId e = c \<and> enr_status e = dropped"
    then show "enrollInCourse s c db =
          (Inr (), db\<lparr>enrollments :=
                       map (\<lambda>x. if x = e
                                 then e\<lparr>enr_status := active, enr_completionPercentage := 0\<rparr>
                                 else x) (enrollments db),
                     faults := drop 2 (faults db)\<rparr>)"
      using enrollInCourse_reactivate[OF ok2 uniq, of e s c] by simp
  next
    assume "\<forall>e \<in> set (enrollments db). \<not> (enr_studentId e = s \<and> enr_courseId e = c)"
    then show "enrollInCourse s c db =
          (Inr (), db\<lparr>enrollments := enrollments db @
                       [\<lparr>enr_id = next_id (seq_enrollments db) (map enr_id (enrollments db)),
                         enr_studentId = s, enr_courseId = c, enr_enrolledAt = clock db,
                         enr_completionPercentage = 0, enr_status = active\<rparr>],
                     seq_enrollments := next_id (seq_enrollments db) (map enr_id (enrollments db)),
                     faults := drop 2 (faults db)\<rparr>)"
      by (rule enrollInCourse_fresh[OF ok2])
  qed
qed

theorem enrollInCourse_transitions_witness:
  "engine_ok 2 (enrolled_db active) \<and> enrollments_unique (enrolled_db active) \<and>
   enrollInCourse 7 3 (enrolled_db active) =
     (Inl (Error ''Already enrolled in this course''), enrolled_db active) \<and>
   enrollInCourse 7 3 (enrolled_db dropped) =
     (Inr (), empty_db\<lparr>enrollments :=
                [\<lparr>enr_id = 1, enr_studentId = 7, enr_courseId = 3, enr_enrolledAt = 500,
                  enr_completionPercentage = 0, enr_status = active\<rparr>],
              seq_enrollments := 1\<rparr>) \<and>
   enrollInCourse 7 3 empty_db =
     (Inr (), empty_db\<lparr>enrollments :=
                [\<lparr>enr_id = 1, enr_studentId = 7, enr_courseId = 3, enr_enrolledAt = 1000,
                  enr_completionPercentage = 0, enr_status = active\<rparr>],
              seq_enrollments := 1\<rparr>)"
  using enrollInCourse_transitions[of "enrolled_db active" 7 3]
    enrollInCourse_transitions[of "enrolled_db dropped" 7 3]
    enrollInCourse_transitions[of empty_db 7 3]
  by (simp add: enrolled_db_def empty_db_def engine_ok_def enrollments_unique_def next_id_def)

text \<open>
  Claim C10. The reactivation is not limited to dropped enrollments: while the engine
  works and the pair is unique, a call for a pair whose row is completed succeeds, and
  that row becomes active with percentage 0; nothing else changes.
\<close>

theorem enrollInCourse_completed:
  assumes "engine_ok 2 db" and "enrollments_unique db"
    and "e \<in> set (enrollments db)" and "enr_studentId e = s" and "enr_courseId e = c"
    and "enr_status e = completed"
  shows "enrollInCourse s c db =
           (Inr (), db\<lparr>enrollments :=
                        map (\<lambda>x. if x = e
                                  then e\<lparr>enr_status := active, enr_completionPercentage := 0\<rparr>
                                  else x) (enrollments db),
                      faults := drop 2 (faults db)\<rparr>)"
  using enrollInCourse_reactivate[OF engine_ok_2[OF assms(1)] assms(2,3,4,5)] assms(6) by simp

theorem enrollInCourse_completed_witness:
  "engine_ok 2 (enrolled_db completed) \<and> enrollments_unique (enrolled_db completed) \<and>
   enrollInCourse 7 3 (enrolled_db completed) =
     (Inr (), empty_db\<lparr>enrollments :=
                [\<lparr>enr_id = 1, enr_studentId = 7, enr_courseId = 3, enr_enrolledAt = 500,
                  enr_completionPercentage = 0, enr_status = active\<rparr>],
              seq_enrollments := 1\<rparr>)"
  using enrollInCourse_completed[of "enrolled_db completed"
      "\<lparr>enr_id = 1, enr_studentId = 7, enr_courseId = 3, enr_enrolledAt = 500,
        enr_completionPercentage = 40, enr_status = completed\<rparr>" 7 3]
  by (simp add: enrolled_db_def empty_db_def engine_ok_def enrollments_unique_def)

section \<open>Lesson completion (progress store)\<close>

lemma engine_ok_drop:
  assumes "engine_ok (n + m) db" "faults db' = drop m (faults db)"
  shows "engine_ok n db'"
proof -
  have "set (take n (drop m (faults db))) \<subseteq> set (take (n + m) (faults db))"
    unfolding take_drop by (rule set_drop_subset)
  with assms show ?thesis by (auto simp: engine_ok_def)
qed

lemma engine_ok_3: "engine_ok 3 db \<Longrightarrow> engine_ok (Suc (Suc (Suc 0))) db"
  by (simp add: numeral_3_eq_3)

lemma drop_3_tl: "drop 3 xs = tl (tl (tl xs))"
  by (simp add: numeral_3_eq_3 drop_Suc)

lemma select_lesson_progress_unique:
  assumes "lesson_progress_unique db" "p \<in> set (lesson_progress db)"
    "lp_studentId p = s" "lp_lessonId p = l"
  shows "select_lesson_progress_by_student_lesson s l (db\<lparr>faults := fs\<rparr>) = [p]"
proof -
  have "filter (\<lambda>x. (lp_studentId x, lp_lessonId x) = (lp_studentId p, lp_lessonId p))
          (lesson_progress db) = [p]"
    using assms(1,2) unfolding lesson_progress_unique_def by (rule filter_unique_key)
  with assms(3,4) show ?thesis
    by (simp add: select_lesson_progress_by_student_lesson_def)
qed

lemma select_lesson_progress_none:
  assumes "\<forall>p \<in> set (lesson_progress db). \<not> (lp_studentId p = s \<and> lp_lessonId p = l)"
  shows "select_lesson_progress_by_student_lesson s l (db\<lparr>faults := fs\<rparr>) = []"
  using assms by (simp add: select_lesson_progress_by_student_lesson_def filter_empty_conv)

lemma map_lesson_progress_unique:
  assumes "lesson_progress_unique db" "p \<in> set (lesson_progress db)"
    "lp_studentId p = s" "lp_lessonId p = l"
  shows "map (\<lambda>x. if lp_studentId x = s \<and> lp_lessonId x = l then f x else x) (lesson_progress db)
         = map (\<lambda>x. if x = p then f p else x) (lesson_progress db)"
proof -
  have "map (\<lambda>x. if (lp_studentId x, lp_lessonId x) = (lp_studentId p, lp_lessonId p)
                   then f x else x) (lesson_progress db)
        = map (\<lambda>x. if x = p then f p else x) (lesson_progress db)"
    using assms(1,2) unfolding lesson_progress_unique_def by (rule map_unique_key)
  with assms(3,4) show ?thesis by simp
qed

lemma map_lesson_progress_none:
  assumes "\<forall>p \<in> set ps. \<not> (lp_studentId p = s \<and> lp_lessonId p = l)"
  shows "map (\<lambda>x. if lp_studentId x = s \<and> lp_lessonId x = l then f x else x) ps = ps"
  using assms by (induction ps) auto

lemma markLessonComplete_existing:
  assumes ok: "engine_ok (Suc (Suc n)) db" and uniq: "lesson_progress_unique db"
    and p: "p \<in> set (lesson_progress db)" "lp_studentId p = s" "lp_lessonId p = l"
  shows "markLessonComplete s l db =
           (Inr (), db\<lparr>lesson_progress :=
                        map (\<lambda>x. if x = p
                                  then p\<lparr>lp_isCompleted := 1, lp_completedAt := Some (clock db)\<rparr>
                                  else x) (lesson_progress db),
                      faults := drop 2 (faults db)\<rparr>)"
  by (simp add: markLessonComplete_def getFirstAsync_ok[OF ok]
      select_lesson_progress_unique[OF uniq p] runAsync_ok[OF engine_ok_tl[OF ok]]
      update_lesson_progress_complete_def drop_2_tl map_lesson_progress_unique[OF uniq p])

lemma markLessonComplete_fresh:
  assumes ok: "engine_ok (Suc (Suc n)) db"
    and none: "\<forall>p \<in> set (lesson_progress db). \<not> (lp_studentId p = s \<and> lp_lessonId p = l)"
  shows "markLessonComplete s l db =
           (Inr (), db\<lparr>lesson_progress := lesson_progress db @
                        [\<lparr>lp_id = next_id (seq_lesson_progress db) (map lp_id (lesson_progress db)),
                          lp_studentId = s, lp_lessonId = l, lp_isCompleted = 1,
                          lp_completedAt = Some (clock db), lp_timeSpent = 0\<rparr>],
                      seq_lesson_progress :=
                        next_id (seq_lesson_progress db) (map lp_id (lesson_progress db)),
                      faults := drop 2 (faults db)\<rparr>)"
  using none
  by (simp add: markLessonComplete_def getFirstAsync_ok[OF ok]
      select_lesson_progress_none[OF none] runAsync_ok[OF engine_ok_tl[OF ok]]
      insert_lesson_progress_def list_ex_iff Let_def drop_2_tl)

lemma markLessonIncomplete_ok:
  assumes ok: "engine_ok (Suc n) db"
  shows "markLessonIncomplete s l db =
           (Inr (), db\<lparr>lesson_progress :=
                        map (\<lambda>x. if lp_studentId x = s \<and> lp_lessonId x = l
                                  then x\<lparr>lp_isCompleted := 0, lp_completedAt := None\<rparr>
                                  else x) (lesson_progress db),
                      faults := tl (faults db)\<rparr>)"
  by (simp add: markLessonIncomplete_def runAsync_ok[OF ok] update_lesson_progress_incomplete_def)

lemma markLessonIncomplete_existing:
  assumes ok: "engine_ok (Suc n) db" and uniq: "lesson_progress_unique db"
    and p: "p \<in> set (lesson_progress db)" "lp_studentId p = s" "lp_lessonId p = l"
  shows "markLessonIncomplete s l db =
           (Inr (), db\<lparr>lesson_progress :=
                        map (\<lambda>x. if x = p
                                  then p\<lparr>lp_isCompleted := 0, lp_completedAt := None\<rparr>
                                  else x) (lesson_progress db),
                      faults := tl (faults db)\<rparr>)"
  by (simp add: markLessonIncomplete_ok[OF ok] map_lesson_progress_unique[OF uniq p])

lemma markLessonIncomplete_none:
  assumes ok: "engine_ok (Suc n) db"
    and none: "\<forall>p \<in> set (lesson_progress db). \<not> (lp_studentId p = s \<and> lp_lessonId p = l)"
  shows "markLessonIncomplete s l db = (Inr (), db\<lparr>faults := tl (faults db)\<rparr>)"
  by (simp add: markLessonIncomplete_ok[OF ok] map_lesson_progress_none[OF none])

lemma markLessonComplete_then_Incomplete:
  assumes ok: "engine_ok (Suc (Suc (Suc n))) db"
    and none: "\<forall>p \<in> set (lesson_progress db). \<not> (lp_studentId p = s \<and> lp_lessonId p = l)"
  shows "markLessonIncomplete s l (snd (markLessonComplete s l db)) =
           (Inr (), db\<lparr>lesson_progress := lesson_progress db @
                        [\<lparr>lp_id = next_id (seq_lesson_progress db) (map lp_id (lesson_progress db)),
                          lp_studentId = s, lp_lessonId = l, lp_isCompleted = 0,
                          lp_completedAt = None, lp_timeSpent = 0\<rparr>],
                      seq_lesson_progress :=
                        next_id (seq_lesson_progress db) (map lp_id (lesson_progress db)),
                      faults := drop 3 (faults db)\<rparr>)"
proof -
  let ?d1 = "db\<lparr>lesson_progress := lesson_progress db @
                        [\<lparr>lp_id = next_id (seq_lesson_progress db) (map lp_id (lesson_progress db)),
                          lp_studentId = s, lp_lessonId = l, lp_isCompleted = 1,
                          lp_completedAt = Some (clock db), lp_timeSpent = 0\<rparr>],
                      seq_lesson_progress :=
                        next_id (seq_lesson_progress db) (map lp_id (lesson_progress db)),
                      faults := drop 2 (faults db)\<rparr>"
  have ok2: "engine_ok (Suc (Suc 0)) db" using ok by (rule engine_ok_mono[rotated]) simp
  have c: "snd (markLessonComplete s l db) = ?d1"
    by (simp add: markLessonComplete_fresh[OF ok2 none])
  have ok3: "engine_ok (Suc 0 + 2) db" using ok by (rule engine_ok_mono[rotated]) simp
  have ok1: "engine_ok (Suc 0) ?d1"
    using ok3 by (rule engine_ok_drop) simp
  show ?thesis
    unfolding c markLessonIncomplete_ok[OF ok1]
    by (simp add: map_lesson_progress_none[OF none] drop_2_tl drop_3_tl)
qed

text \<open>
  Claim C2, as stated, fails: \<^verbatim>\<open>markLessonIncomplete\<close> is a single \<^verbatim>\<open>UPDATE\<close>, so for a
  pair without a progress row it succeeds and creates nothing.
\<close>

theorem markLessonIncomplete_counterexample:
  "select_lesson_progress_by_student_lesson 7 5 empty_db = [] \<and>
   markLessonIncomplete 7 5 empty_db = (Inr (), empty_db)"
  by (simp add: select_lesson_progress_by_student_lesson_def markLessonIncomplete_def
      runAsync_def next_fault_def update_lesson_progress_incomplete_def empty_db_def)

text \<open>
  Claim C2, amended. While the engine works and the pair (student, lesson) is unique in
  \<^verbatim>\<open>lesson_progress\<close>: \<^verbatim>\<open>markLessonComplete\<close> is an upsert (it stamps the row of the pair
  when there is one, and appends a completed row otherwise); \<^verbatim>\<open>markLessonIncomplete\<close>
  clears the row of the pair when there is one and changes no table otherwise; and for
  a pair without a row, \<^verbatim>\<open>markLessonComplete\<close> followed by \<^verbatim>\<open>markLessonIncomplete\<close>
  leaves exactly one row of the pair, not completed and without a completion time.
\<close>

theorem markLesson_upsert_amended:
  assumes ok: "engine_ok 3 db" and uniq: "lesson_progress_unique db"
  shows
    "(\<forall>p \<in> set (lesson_progress db). lp_studentId p = s \<and> lp_lessonId p = l \<longrightarrow>
        markLessonComplete s l db =
          (Inr (), db\<lparr>lesson_progress :=
                       map (\<lambda>x. if x = p
                                 then p\<lparr>lp_isCompleted := 1, lp_completedAt := Some (clock db)\<rparr>
                                 else x) (lesson_progress db),
                     faults := drop 2 (faults db)\<rparr>) \<and>
        markLessonIncomplete s l db =
          (Inr (), db\<lparr>lesson_progress :=
                       map (\<lambda>x. if x = p
                                 then p\<lparr>lp_isCompleted := 0, lp_completedAt := None\<rparr>
                                 else x) (lesson_progress db),
                     faults := tl (faults db)\<rparr>)) \<and>
     ((\<forall>p \<in> set (lesson_progress db). \<not> (lp_studentId p = s \<and> lp_lessonId p = l)) \<longrightarrow>
        markLessonComplete s l db =
          (Inr (), db\<lparr>lesson_progress := lesson_progress db @
                       [\<lparr>lp_id = next_id (seq_lesson_progress db) (map lp_id (lesson_progress db)),
                         lp_studentId = s, lp_lessonId = l, lp_isCompleted = 1,
                         lp_completedAt = Some (clock db), lp_timeSpent = 0\<rparr>],
                     seq_lesson_progress :=
                       next_id (seq_lesson_progress db) (map lp_id (lesson_progress db)),
                     faults := drop 2 (faults db)\<rparr>) \<and>
        markLessonIncomplete s l db = (Inr (), db\<lparr>faults := tl (faults db)\<rparr>) \<and>
        fst (markLessonIncomplete s l (snd (markLessonComplete s l db))) = Inr () \<and>
        select_lesson_progress_by_student_lesson s l
            (snd (markLessonIncomplete s l (snd (markLessonComplete s l db)))) =
          [\<lparr>lp_id = next_id (seq_lesson_progress db) (map lp_id (lesson_progress db)),
            lp_studentId = s, lp_lessonId = l, lp_isCompleted = 0,
            lp_completedAt = None, lp_timeSpent = 0\<rparr>])"
proof -
  have ok3: "engine_ok (Suc (Suc (Suc 0))) db" using ok by (rule engine_ok_3)
  have ok2: "engine_ok (Suc (Suc 0)) db" using ok3 by (rule engine_ok_mono[rotated]) simp
  have ok1: "engine_ok (Suc 0) db" using ok3 by (rule engine_ok_mono[rotated]) simp
  have existing: "markLessonComplete s l db =
          (Inr (), db\<lparr>lesson_progress :=
                       map (\<lambda>x. if x = p
                                 then p\<lparr>lp_isCompleted := 1, lp_completedAt := Some (clock db)\<rparr>
                                 else x) (lesson_progress db),
                     faults := drop 2 (faults db)\<rparr>) \<and>
        markLessonIncomplete s l db =
          (Inr (), db\<lparr>lesson_progress :=
                       map (\<lambda>x. if x = p
                                 then p\<lparr>lp_isCompleted := 0, lp_completedAt := None\<rparr>
                                 else x) (lesson_progress db),
                     faults := tl (faults db)\<rparr>)"
    if "p \<in> set (lesson_progress db)" "lp_studentId p = s \<and> lp_lessonId p = l" for p
    using that markLessonComplete_existing[OF ok2 uniq, of p s l]
      markLessonIncomplete_existing[OF ok1 uniq, of p s l] by simp
  have fresh: "markLessonComplete s l db =
          (Inr (), db\<lparr>lesson_progress := lesson_progress db @
                       [\<lparr>lp_id = next_id (seq_lesson_progress db) (map lp_id (lesson_progress db)),
                         lp_studentId = s, lp_lessonId = l, lp_isCompleted = 1,
                         lp_completedAt = Some (clock db), lp_timeSpent = 0\<rparr>],
                     seq_lesson_progress :=
                       next_id (seq_lesson_progress db) (map lp_id (lesson_progress db)),
                     faults := drop 2 (faults db)\<rparr>) \<and>
        markLessonIncomplete s l db = (Inr (), db\<lparr>faults := tl (faults db)\<rparr>) \<and>
        fst (markLessonIncomplete s l (snd (markLessonComplete s l db))) = Inr () \<and>
        select_lesson_progress_by_student_lesson s l
            (snd (markLessonIncomplete s l (snd (markLessonComplete s l db)))) =
          [\<lparr>lp_id = next_id (seq_lesson_progress db) (map lp_id (lesson_progress db)),
            lp_studentId = s, lp_lessonId = l, lp_isCompleted = 0,
            lp_completedAt = None, lp_timeSpent = 0\<rparr>]"
    if none: "\<forall>p \<in> set (lesson_progress db). \<not> (lp_studentId p = s \<and> lp_lessonId p = l)"
  proof -
    have "filter (\<lambda>p. lp_studentId p = s \<and> lp_lessonId p = l) (lesson_progress db) = []"
      using none by (simp add: filter_empty_conv)
    then show ?thesis
      unfolding markLessonComplete_then_Incomplete[OF ok3 none]
      by (simp add: markLessonComplete_fresh[OF ok2 none] markLessonIncomplete_none[OF ok1 none]
          select_lesson_progress_by_student_lesson_def)
  qed
  show ?thesis using existing fresh by blast
qed

theorem markLesson_upsert_amended_witness:
  "engine_ok 3 progress_db \<and> lesson_progress_unique progress_db \<and>
   markLessonComplete 7 5 progress_db =
     (Inr (), progress_db\<lparr>lesson_progress :=
                [\<lparr>lp_id = 1, lp_studentId = 7, lp_lessonId = 5, lp_isCompleted = 1,
                  lp_completedAt = Some 1000, lp_timeSpent = 30\<rparr>]\<rparr>) \<and>
   markLessonIncomplete 7 5 progress_db =
     (Inr (), progress_db\<lparr>lesson_progress :=
                [\<lparr>lp_id = 1, lp_studentId = 7, lp_lessonId = 5, lp_isCompleted = 0,
                  lp_completedAt = None, lp_timeSpent = 30\<rparr>]\<rparr>) \<and>
   markLessonComplete 7 5 empty_db =
     (Inr (), empty_db\<lparr>lesson_progress :=
                [\<lparr>lp_id = 1, lp_studentId = 7, lp_lessonId = 5, lp_isCompleted = 1,
                  lp_completedAt = Some 1000, lp_timeSpent = 0\<rparr>],
                seq_lesson_progress := 1\<rparr>) \<and>
   markLessonIncomplete 7 5 empty_db = (Inr (), empty_db) \<and>
   fst (markLessonIncomplete 7 5 (snd (markLessonComplete 7 5 empty_db))) = Inr () \<and>
   select_lesson_progress_by_student_lesson 7 5
       (snd (markLessonIncomplete 7 5 (snd (markLessonComplete 7 5 empty_db)))) =
     [\<lparr>lp_id = 1, lp_studentId = 7, lp_lessonId = 5, lp_isCompleted = 0,
       lp_completedAt = None, lp_timeSpent = 0\<rparr>]"
proof -
  have h: "engine_ok 3 progress_db" "lesson_progress_unique progress_db"
    "engine_ok 3 empty_db" "lesson_progress_unique empty_db"
    by (simp_all add: progress_db_def empty_db_def engine_ok_def lesson_progress_unique_def)
  note A = markLesson_upsert_amended[OF h(1,2), of 7 5]
  note B = markLesson_upsert_amended[OF h(3,4), of 7 5]
  have A1: "markLessonComplete 7 5 progress_db =
     (Inr (), progress_db\<lparr>lesson_progress :=
                [\<lparr>lp_id = 1, lp_studentId = 7, lp_lessonId = 5, lp_isCompleted = 1,
                  lp_completedAt = Some 1000, lp_timeSpent = 30\<rparr>]\<rparr>)"
    using A by (simp add: progress_db_def empty_db_def)
  have A2: "markLessonIncomplete 7 5 progress_db =
     (Inr (), progress_db\<lparr>lesson_progress :=
                [\<lparr>lp_id = 1, lp_studentId = 7, lp_lessonId = 5, lp_isCompleted = 0,
                  lp_completedAt = None, lp_timeSpent = 30\<rparr>]\<rparr>)"
    using A by (simp add: progress_db_def empty_db_def)
  have none: "\<forall>p \<in> set (lesson_progress empty_db). \<not> (lp_studentId p = 7 \<and> lp_lessonId p = 5)"
    by (simp add: empty_db_def)
  have B1: "markLessonComplete 7 5 empty_db =
     (Inr (), empty_db\<lparr>lesson_progress :=
                [\<lparr>lp_id = 1, lp_studentId = 7, lp_lessonId = 5, lp_isCompleted = 1,
                  lp_completedAt = Some 1000, lp_timeSpent = 0\<rparr>],
                seq_lesson_progress := 1\<rparr>)"
    using B none by (simp add: empty_db_def next_id_def)
  have B2: "markLessonIncomplete 7 5 empty_db = (Inr (), empty_db)"
    using B none by (simp add: empty_db_def)
  have B3: "fst (markLessonIncomplete 7 5 (snd (markLessonComplete 7 5 empty_db))) = Inr ()"
    using B none by blast
  have "select_lesson_progress_by_student_lesson 7 5
       (snd (markLessonIncomplete 7 5 (snd (markLessonComplete 7 5 empty_db)))) =
     [\<lparr>lp_id = next_id (seq_lesson_progress empty_db) (map lp_id (lesson_progress empty_db)),
       lp_studentId = 7, lp_lessonId = 5, lp_isCompleted = 0,
       lp_completedAt = None, lp_timeSpent = 0\<rparr>]"
    using B none by blast
  moreover have "next_id (seq_lesson_progress empty_db) (map lp_id (lesson_progress empty_db)) = 1"
    by (simp add: empty_db_def next_id_def)
  ultimately have B4: "select_lesson_progress_by_student_lesson 7 5
       (snd (markLessonIncomplete 7 5 (snd (markLessonComplete 7 5 empty_db)))) =
     [\<lparr>lp_id = 1, lp_studentId = 7, lp_lessonId = 5, lp_isCompleted = 0,
       lp_completedAt = None, lp_timeSpent = 0\<rparr>]"
    by (simp only:)
  show ?thesis
    using h(1,2) A1 A2 B1 B2 B3 B4 by (intro conjI)
qed

section \<open>Time spent on a lesson (progress store)\<close>











section \<open>Deleting a course (course store)\<close>

lemma engine_ok_Suc:
  "engine_ok (Suc n) db \<longleftrightarrow>
     take 1 (faults db) \<noteq> [True] \<and> engine_ok n (db\<lparr>faults := tl (faults db)\<rparr>)"
  by (cases "faults db") (auto simp: engine_ok_def)

lemma engine_ok_0: "engine_ok 0 db"
  by (simp add: engine_ok_def)

lemma runAsync_cases:
  "runAsync stmt db =
     (if take 1 (faults db) = [True] then (Inl SqliteError, db\<lparr>faults := tl (faults db)\<rparr>)
      else case stmt (db\<lparr>faults := tl (faults db)\<rparr>) of
             None \<Rightarrow> (Inl SqliteError, db\<lparr>faults := tl (faults db)\<rparr>)
           | Some db2 \<Rightarrow> (Inr (), db2))"
proof (cases "faults db")
  case Nil
  then have e: "db\<lparr>faults := []\<rparr> = db" by simp
  show ?thesis
    by (simp add: runAsync_def next_fault_def Nil e split: option.split)
next
  case (Cons f fs)
  then show ?thesis
    by (simp add: runAsync_def next_fault_def split: option.split)
qed

lemma engine_ok_6: "engine_ok 6 db \<longleftrightarrow> engine_ok (Suc (Suc (Suc (Suc (Suc (Suc 0)))))) db"
  by (simp add: eval_nat_numeral)

lemma drop_6_tl: "drop 6 xs = tl (tl (tl (tl (tl (tl xs)))))"
  by (simp add: eval_nat_numeral drop_Suc)

lemmas delete_course_stmts =
  delete_lessons_by_course_def delete_quizzes_by_course_def delete_enrollments_by_course_def
  delete_announcements_by_course_def delete_assignments_by_course_def delete_course_by_id_def

lemma deleteCourse_succeeds_iff: "fst (deleteCourse c db) = Inr () \<longleftrightarrow> engine_ok 6 db"
  by (simp add: deleteCourse_def runAsync_cases delete_course_stmts engine_ok_6 engine_ok_Suc
      engine_ok_0)

lemma deleteCourse_ok:
  assumes "engine_ok 6 db"
  shows "deleteCourse c db =
    (Inr (),
     db\<lparr>lessons := filter (\<lambda>l. lesson_courseId l \<noteq> c) (lessons db),
        quizzes := filter (\<lambda>q. quiz_courseId q \<noteq> c) (quizzes db),
        enrollments := filter (\<lambda>e. enr_courseId e \<noteq> c) (enrollments db),
        announcements := filter (\<lambda>a. ann_courseId a \<noteq> Some c) (announcements db),
        assignments := filter (\<lambda>a. assignment_courseId a \<noteq> c) (assignments db),
        courses := filter (\<lambda>x. course_id x \<noteq> c) (courses db),
        faults := drop 6 (faults db)\<rparr>)"
  using assms
  by (simp add: deleteCourse_def runAsync_cases delete_course_stmts engine_ok_6 engine_ok_Suc
      drop_6_tl)

lemma deleteCourse_fails_0:
  assumes "faults db = True # fs"
  shows "deleteCourse c db =
        (Inl SqliteError,
         db\<lparr>faults := fs\<rparr>)"
  using assms by (simp add: deleteCourse_def runAsync_cases delete_course_stmts)

lemma deleteCourse_fails_1:
  assumes "faults db = False # True # fs"
  shows "deleteCourse c db =
        (Inl SqliteError,
         db\<lparr>lessons := filter (\<lambda>l. lesson_courseId l \<noteq> c) (lessons db),
          faults := fs\<rparr>)"
  using assms by (simp add: deleteCourse_def runAsync_cases delete_course_stmts)

lemma deleteCourse_fails_2:
  assumes "faults db = False # False # True # fs"
  shows "deleteCourse c db =
        (Inl SqliteError,
         db\<lparr>lessons := filter (\<lambda>l. lesson_courseId l \<noteq> c) (lessons db),
          quizzes := filter (\<lambda>q. quiz_courseId q \<noteq> c) (quizzes db),
          faults := fs\<rparr>)"
  using assms by (simp add: deleteCourse_def runAsync_cases delete_course_stmts)

lemma deleteCourse_fails_3:
  assumes "faults db = False # False # False # True # fs"
  shows "deleteCourse c db =
        (Inl SqliteError,
         db\<lparr>lessons := filter (\<lambda>l. lesson_courseId l \<noteq> c) (lessons db),
          quizzes := filter (\<lambda>q. quiz_courseId q \<noteq> c) (quizzes db),
          enrollments := filter (\<lambda>e. enr_courseId e \<noteq> c) (enrollments db),
          faults := fs\<rparr>)"
  using assms by (simp add: deleteCourse_def runAsync_cases delete_course_stmts)

lemma deleteCourse_fails_4:
  assumes "faults db = False # False # False # False # True # fs"
  shows "deleteCourse c db =
        (Inl SqliteError,
         db\<lparr>lessons := filter (\<lambda>l. lesson_courseId l \<noteq> c) (lessons db),
          quizzes := filter (\<lambda>q. quiz_courseId q \<noteq> c) (quizzes db),
          enrollments := filter (\<lambda>e. enr_courseId e \<noteq> c) (enrollments db),
          announcements := filter (\<lambda>a. ann_courseId a \<noteq> Some c) (announcements db),
          faults := fs\<rparr>)"
  using assms by (simp add: deleteCourse_def runAsync_cases delete_course_stmts)

lemma deleteCourse_fails_5:
  assumes "faults db = False # False # False # False # False # True # fs"
  shows "deleteCourse c db =
        (Inl SqliteError,
         db\<lparr>lessons := filter (\<lambda>l. lesson_courseId l \<noteq> c) (lessons db),
          quizzes := filter (\<lambda>q. quiz_courseId q \<noteq> c) (quizzes db),
          enrollments := filter (\<lambda>e. enr_courseId e \<noteq> c) (enrollments db),
          announcements := filter (\<lambda>a. ann_courseId a \<noteq> Some c) (announcements db),
          assignments := filter (\<lambda>a. assignment_courseId a \<noteq> c) (assignments db),
          faults := fs\<rparr>)"
  using assms by (simp add: deleteCourse_def runAsync_cases delete_course_stmts)

text \<open>
  Claim C3. \<^verbatim>\<open>deleteCourse\<close> succeeds exactly when the engine raises no failure during
  its six statements; then no row of \<^verbatim>\<open>lessons\<close>, \<^verbatim>\<open>quizzes\<close>, \<^verbatim>\<open>enrollments\<close>,
  \<^verbatim>\<open>announcements\<close> and \<^verbatim>\<open>assignments\<close> refers to the course, and the course row is
  gone, while the rows of other courses stay. The statements run in that order, with the
  course row last: when the statement at position \<open>k\<close> is the first to fail, the call
  fails with the engine's error, the tables of the statements before it are purged and
  stay purged (nothing is rolled back), and the tables of the later statements are
  untouched.
\<close>

theorem deleteCourse_cascade:
  "(fst (deleteCourse c db) = Inr () \<longleftrightarrow> engine_ok 6 db) \<and>
   (engine_ok 6 db \<longrightarrow>
      deleteCourse c db =
        (Inr (),
         db\<lparr>lessons := filter (\<lambda>l. lesson_courseId l \<noteq> c) (lessons db),
          quizzes := filter (\<lambda>q. quiz_courseId q \<noteq> c) (quizzes db),
          enrollments := filter (\<lambda>e. enr_courseId e \<noteq> c) (enrollments db),
          announcements := filter (\<lambda>a. ann_courseId a \<noteq> Some c) (announcements db),
          assignments := filter (\<lambda>a. assignment_courseId a \<noteq> c) (assignments db),
          courses := filter (\<lambda>x. course_id x \<noteq> c) (courses db),
          faults := drop 6 (faults db)\<rparr>) \<and>
      (\<forall>l \<in> set (lessons (snd (deleteCourse c db))). lesson_courseId l \<noteq> c) \<and>
      (\<forall>q \<in> set (quizzes (snd (deleteCourse c db))). quiz_courseId q \<noteq> c) \<and>
      (\<forall>e \<in> set (enrollments (snd (deleteCourse c db))). enr_courseId e \<noteq> c) \<and>
      (\<forall>a \<in> set (announcements (snd (deleteCourse c db))). ann_courseId a \<noteq> Some c) \<and>
      (\<forall>a \<in> set (assignments (snd (deleteCourse c db))). assignment_courseId a \<noteq> c) \<and>
      (\<forall>x \<in> set (courses (snd (deleteCourse c db))). course_id x \<noteq> c)) \<and>
   (faults db = True # fs \<longrightarrow>
      deleteCourse c db =
        (Inl SqliteError,
         db\<lparr>faults := fs\<rparr>)) \<and>
   (faults db = False # True # fs \<longrightarrow>
      deleteCourse c db =
        (Inl SqliteError,
         db\<lparr>lessons := filter (\<lambda>l. lesson_courseId l \<noteq> c) (lessons db),
          faults := fs\<rparr>)) \<and>
   (faults db = False # False # True # fs \<longrightarrow>
      deleteCourse c db =
        (Inl SqliteError,
         db\<lparr>lessons := filter (\<lambda>l. lesson_courseId l \<noteq> c) (lessons db),
          quizzes := filter (\<lambda>q. quiz_courseId q \<noteq> c) (quizzes db),
          faults := fs\<rparr>)) \<and>
   (faults db = False # False # False # True # fs \<longrightarrow>
      deleteCourse c db =
        (Inl SqliteError,
         db\<lparr>lessons := filter (\<lambda>l. lesson_courseId l \<noteq> c) (lessons db),
          quizzes := filter (\<lambda>q. quiz_courseId q \<noteq> c) (quizzes db),
          enrollments := filter (\<lambda>e. enr_courseId e \<noteq> c) (enrollments db),
          faults := fs\<rparr>)) \<and>
   (faults db = False # False # False # False # True # fs \<longrightarrow>
      deleteCourse c db =
        (Inl SqliteError,
         db\<lparr>lessons := filter (\<lambda>l. lesson_courseId l \<noteq> c) (lessons db),
          quizzes := filter (\<lambda>q. quiz_courseId q \<noteq> c) (quizzes db),
          enrollments := filter (\<lambda>e. enr_courseId e \<noteq> c) (enrollments db),
          announcements := filter (\<lambda>a. ann_courseId a \<noteq> Some c) (announcements db),
          faults := fs\<rparr>)) \<and>
   (faults db = False # False # False # False # False # True # fs \<longrightarrow>
      deleteCourse c db =
        (Inl SqliteError,
         db\<lparr>lessons := filter (\<lambda>l. lesson_courseId l \<noteq> c) (lessons db),
          quizzes := filter (\<lambda>q. quiz_courseId q \<noteq> c) (quizzes db),
          enrollments := filter (\<lambda>e. enr_courseId e \<noteq> c) (enrollments db),
          announcements := filter (\<lambda>a. ann_courseId a \<noteq> Some c) (announcements db),
          assignments := filter (\<lambda>a. assignment_courseId a \<noteq> c) (assignments db),
          faults := fs\<rparr>))"
proof -
  have ok: "deleteCourse c db =
        (Inr (),
         db\<lparr>lessons := filter (\<lambda>l. lesson_courseId l \<noteq> c) (lessons db),
          quizzes := filter (\<lambda>q. quiz_courseId q \<noteq> c) (quizzes db),
          enrollments := filter (\<lambda>e. enr_courseId e \<noteq> c) (enrollments db),
          announcements := filter (\<lambda>a. ann_courseId a \<noteq> Some c) (announcements db),
          assignments := filter (\<lambda>a. assignment_courseId a \<noteq> c) (assignments db),
          courses := filter (\<lambda>x. course_id x \<noteq> c) (courses db),
          faults := drop 6 (faults db)\<rparr>) \<and>
      (\<forall>l \<in> set (lessons (snd (deleteCourse c db))). lesson_courseId l \<noteq> c) \<and>
      (\<forall>q \<in> set (quizzes (snd (deleteCourse c db))). quiz_courseId q \<noteq> c) \<and>
      (\<forall>e \<in> set (enrollments (snd (deleteCourse c db))). enr_courseId e \<noteq> c) \<and>
      (\<forall>a \<in> set (announcements (snd (deleteCourse c db))). ann_courseId a \<noteq> Some c) \<and>
      (\<forall>a \<in> set (assignments (snd (deleteCourse c db))). assignment_courseId a \<noteq> c) \<and>
      (\<forall>x \<in> set (courses (snd (deleteCourse c db))). course_id x \<noteq> c)"
    if "engine_ok 6 db"
    by (simp add: deleteCourse_ok[OF that])
  show ?thesis
    using ok deleteCourse_succeeds_iff[of c db]
      deleteCourse_fails_0[of db fs c] deleteCourse_fails_1[of db fs c]
      deleteCourse_fails_2[of db fs c] deleteCourse_fails_3[of db fs c]
      deleteCourse_fails_4[of db fs c] deleteCourse_fails_5[of db fs c]
    by blast
qed

theorem deleteCourse_cascade_witness:
  "engine_ok 6 course_db \<and> fst (deleteCourse 3 course_db) = Inr () \<and>
   course_rows course_db = ([1, 2, 3], [1], [1], [1, 2], [1], [3, 4]) \<and>
   course_rows (snd (deleteCourse 3 course_db)) = ([2], [], [], [2], [], [4]) \<and>
   fst (deleteCourse 3 (course_db\<lparr>faults := [True]\<rparr>)) = Inl SqliteError \<and>
   course_rows (snd (deleteCourse 3 (course_db\<lparr>faults := [True]\<rparr>))) =
     ([1, 2, 3], [1], [1], [1, 2], [1], [3, 4]) \<and>
   fst (deleteCourse 3 (course_db\<lparr>faults := [False, True]\<rparr>)) = Inl SqliteError \<and>
   course_rows (snd (deleteCourse 3 (course_db\<lparr>faults := [False, True]\<rparr>))) =
     ([2], [1], [1], [1, 2], [1], [3, 4]) \<and>
   fst (deleteCourse 3 (course_db\<lparr>faults := [False, False, True]\<rparr>)) = Inl SqliteError \<and>
   course_rows (snd (deleteCourse 3 (course_db\<lparr>faults := [False, False, True]\<rparr>))) =
     ([2], [], [1], [1, 2], [1], [3, 4]) \<and>
   fst (deleteCourse 3 (course_db\<lparr>faults := [False, False, False, True]\<rparr>)) = Inl SqliteError \<and>
   course_rows (snd (deleteCourse 3 (course_db\<lparr>faults := [False, False, False, True]\<rparr>))) =
     ([2], [], [], [1, 2], [1], [3, 4]) \<and>
   fst (deleteCourse 3 (course_db\<lparr>faults := [False, False, False, False, True]\<rparr>)) = Inl SqliteError \<and>
   course_rows (snd (deleteCourse 3 (course_db\<lparr>faults := [False, False, False, False, True]\<rparr>))) =
     ([2], [], [], [2], [1], [3, 4]) \<and>
   fst (deleteCourse 3 (course_db\<lparr>faults := [False, False, False, False, False, True]\<rparr>)) = Inl SqliteError \<and>
   course_rows (snd (deleteCourse 3 (course_db\<lparr>faults := [False, False, False, False, False, True]\<rparr>))) =
     ([2], [], [], [2], [], [3, 4])"
proof -
  have ok: "engine_ok 6 course_db"
    by (simp add: engine_ok_def course_db_def empty_db_def)
  have r0: "course_rows course_db = ([1, 2, 3], [1], [1], [1, 2], [1], [3, 4])"
    by (simp add: course_rows_def course_db_def empty_db_def)
  have s: "fst (deleteCourse 3 course_db) = Inr () \<and>
      course_rows (snd (deleteCourse 3 course_db)) = ([2], [], [], [2], [], [4])"
    using deleteCourse_cascade[of 3 course_db "[]"] ok
    by (simp add: course_rows_def course_db_def empty_db_def)
  have f0: "fst (deleteCourse 3 (course_db\<lparr>faults := [True]\<rparr>)) = Inl SqliteError \<and>
      course_rows (snd (deleteCourse 3 (course_db\<lparr>faults := [True]\<rparr>))) =
        ([1, 2, 3], [1], [1], [1, 2], [1], [3, 4])"
    using deleteCourse_cascade[of 3 "course_db\<lparr>faults := [True]\<rparr>" "[]"]
    by (simp add: course_rows_def course_db_def empty_db_def)
  have f1: "fst (deleteCourse 3 (course_db\<lparr>faults := [False, True]\<rparr>)) = Inl SqliteError \<and>
      course_rows (snd (deleteCourse 3 (course_db\<lparr>faults := [False, True]\<rparr>))) =
        ([2], [1], [1], [1, 2], [1], [3, 4])"
    using deleteCourse_cascade[of 3 "course_db\<lparr>faults := [False, True]\<rparr>" "[]"]
    by (simp add: course_rows_def course_db_def empty_db_def)
  have f2: "fst (deleteCourse 3 (course_db\<lparr>faults := [False, False, True]\<rparr>)) = Inl SqliteError \<and>
      course_rows (snd (deleteCourse 3 (course_db\<lparr>faults := [False, False, True]\<rparr>))) =
        ([2], [], [1], [1, 2], [1], [3, 4])"
    using deleteCourse_cascade[of 3 "course_db\<lparr>faults := [False, False, True]\<rparr>" "[]"]
    by (simp add: course_rows_def course_db_def empty_db_def)
  have f3: "fst (deleteCourse 3 (course_db\<lparr>faults := [False, False, False, True]\<rparr>)) = Inl SqliteError \<and>
      course_rows (snd (deleteCourse 3 (course_db\<lparr>faults := [False, False, False, True]\<rparr>))) =
        ([2], [], [], [1, 2], [1], [3, 4])"
    using deleteCourse_cascade[of 3 "course_db\<lparr>faults := [False, False, False, True]\<rparr>" "[]"]
    by (simp add: course_rows_def course_db_def empty_db_def)
  have f4: "fst (deleteCourse 3 (course_db\<lparr>faults := [False, False, False, False, True]\<rparr>)) = Inl SqliteError \<and>
      course_rows (snd (deleteCourse 3 (course_db\<lparr>faults := [False, False, False, False, True]\<rparr>))) =
        ([2], [], [], [2], [1], [3, 4])"
    using deleteCourse_cascade[of 3 "course_db\<lparr>faults := [False, False, False, False, True]\<rparr>" "[]"]
    by (simp add: course_rows_def course_db_def empty_db_def)
  have f5: "fst (deleteCourse 3 (course_db\<lparr>faults := [False, False, False, False, False, True]\<rparr>)) = Inl SqliteError \<and>
      course_rows (snd (deleteCourse 3 (course_db\<lparr>faults := [False, False, False, False, False, True]\<rparr>))) =
        ([2], [], [], [2], [], [3, 4])"
    using deleteCourse_cascade[of 3 "course_db\<lparr>faults := [False, False, False, False, False, True]\<rparr>" "[]"]
    by (simp add: course_rows_def course_db_def empty_db_def)
  show ?thesis
    using ok r0 s f0 f1 f2 f3 f4 f5 by (intro conjI) simp_all
qed

section \<open>What deleting a course leaves behind\<close>

lemma deleteCourse_frame:
  "lesson_progress (snd (deleteCourse c db)) = lesson_progress db \<and>
   quiz_questions (snd (deleteCourse c db)) = quiz_questions db \<and>
   quiz_attempts (snd (deleteCourse c db)) = quiz_attempts db \<and>
   quiz_answers (snd (deleteCourse c db)) = quiz_answers db"
  by (simp add: deleteCourse_def runAsync_cases delete_course_stmts)

lemma deleteLesson_ok:
  assumes "engine_ok 2 db"
  shows "deleteLesson l db =
    (Inr (), db\<lparr>lesson_progress := filter (\<lambda>p. lp_lessonId p \<noteq> l) (lesson_progress db),
               lessons := filter (\<lambda>x. lesson_id x \<noteq> l) (lessons db),
               faults := drop 2 (faults db)\<rparr>)"
  using engine_ok_2[OF assms]
  by (simp add: deleteLesson_def runAsync_cases delete_lesson_progress_by_lesson_def
      delete_lesson_by_id_def engine_ok_Suc drop_2_tl)

lemma deleteQuiz_ok:
  assumes "engine_ok 3 db"
  shows "deleteQuiz q db =
    (Inr (), db\<lparr>quiz_questions := filter (\<lambda>x. question_quizId x \<noteq> q) (quiz_questions db),
               quiz_attempts := filter (\<lambda>a. attempt_quizId a \<noteq> q) (quiz_attempts db),
               quizzes := filter (\<lambda>x. quiz_id x \<noteq> q) (quizzes db),
               faults := drop 3 (faults db)\<rparr>)"
  using engine_ok_3[OF assms]
  by (simp add: deleteQuiz_def runAsync_cases delete_questions_by_quiz_def
      delete_attempts_by_quiz_def delete_quiz_by_id_def engine_ok_Suc drop_3_tl)

lemma deleteQuiz_frame: "quiz_answers (snd (deleteQuiz q db)) = quiz_answers db"
  by (simp add: deleteQuiz_def runAsync_cases delete_questions_by_quiz_def
      delete_attempts_by_quiz_def delete_quiz_by_id_def)

lemma deleteQuestion_ok:
  assumes "engine_ok 2 db"
  shows "deleteQuestion n db =
    (Inr (), db\<lparr>quiz_answers := filter (\<lambda>a. answer_questionId a \<noteq> n) (quiz_answers db),
               quiz_questions := filter (\<lambda>x. question_id x \<noteq> n) (quiz_questions db),
               faults := drop 2 (faults db)\<rparr>)"
  using engine_ok_2[OF assms]
  by (simp add: deleteQuestion_def runAsync_cases delete_answers_by_question_def
      delete_question_by_id_def engine_ok_Suc drop_2_tl)

text \<open>
  Claim C9, as stated, fails in its last part: \<^verbatim>\<open>deleteQuiz\<close> removes the questions and
  the attempts of a quiz and leaves \<^verbatim>\<open>quiz_answers\<close> alone; the answer given in an
  attempt of quiz 1 to a question of quiz 1 survives \<^verbatim>\<open>deleteQuiz 1\<close>, and it is
  \<^verbatim>\<open>deleteQuestion\<close> that removes it, together with the question.
\<close>

theorem deleteQuiz_counterexample:
  "map (\<lambda>a. (answer_attemptId a, answer_questionId a)) (quiz_answers course_db) = [(1, 1)] \<and>
   map (\<lambda>a. (attempt_id a, attempt_quizId a)) (quiz_attempts course_db) = [(1, 1)] \<and>
   map (\<lambda>q. (question_id q, question_quizId q)) (quiz_questions course_db) = [(1, 1)] \<and>
   fst (deleteQuiz 1 course_db) = Inr () \<and>
   quiz_answers (snd (deleteQuiz 1 course_db)) = quiz_answers course_db \<and>
   fst (deleteQuestion 1 course_db) = Inr () \<and>
   quiz_answers (snd (deleteQuestion 1 course_db)) = [] \<and>
   quiz_questions (snd (deleteQuestion 1 course_db)) = []"
  by (simp add: deleteQuiz_def deleteQuestion_def runAsync_cases delete_questions_by_quiz_def
      delete_attempts_by_quiz_def delete_quiz_by_id_def delete_answers_by_question_def
      delete_question_by_id_def course_db_def empty_db_def)

text \<open>
  Claim C9, amended. Whatever its outcome, \<^verbatim>\<open>deleteCourse\<close> leaves the tables
  \<^verbatim>\<open>lesson_progress\<close>, \<^verbatim>\<open>quiz_questions\<close>, \<^verbatim>\<open>quiz_attempts\<close> and \<^verbatim>\<open>quiz_answers\<close> as
  they were, so the rows below the lessons and quizzes it deletes stay behind. While the
  engine works, \<^verbatim>\<open>deleteLesson\<close> removes the progress rows of its lesson and
  \<^verbatim>\<open>deleteQuiz\<close> the questions and attempts of its quiz; \<^verbatim>\<open>deleteQuiz\<close> never changes
  \<^verbatim>\<open>quiz_answers\<close>, whose rows \<^verbatim>\<open>deleteQuestion\<close> removes, question by question.
\<close>

theorem deleteCourse_no_grandchildren:
  "lesson_progress (snd (deleteCourse c db)) = lesson_progress db \<and>
   quiz_questions (snd (deleteCourse c db)) = quiz_questions db \<and>
   quiz_attempts (snd (deleteCourse c db)) = quiz_attempts db \<and>
   quiz_answers (snd (deleteCourse c db)) = quiz_answers db \<and>
   (engine_ok 2 db \<longrightarrow>
      deleteLesson l db =
        (Inr (), db\<lparr>lesson_progress := filter (\<lambda>p. lp_lessonId p \<noteq> l) (lesson_progress db),
                   lessons := filter (\<lambda>x. lesson_id x \<noteq> l) (lessons db),
                   faults := drop 2 (faults db)\<rparr>)) \<and>
   (engine_ok 3 db \<longrightarrow>
      deleteQuiz q db =
        (Inr (), db\<lparr>quiz_questions := filter (\<lambda>x. question_quizId x \<noteq> q) (quiz_questions db),
                   quiz_attempts := filter (\<lambda>a. attempt_quizId a \<noteq> q) (quiz_attempts db),
                   quizzes := filter (\<lambda>x. quiz_id x \<noteq> q) (quizzes db),
                   faults := drop 3 (faults db)\<rparr>)) \<and>
   quiz_answers (snd (deleteQuiz q db)) = quiz_answers db \<and>
   (engine_ok 2 db \<longrightarrow>
      deleteQuestion n db =
        (Inr (), db\<lparr>quiz_answers := filter (\<lambda>a. answer_questionId a \<noteq> n) (quiz_answers db),
                   quiz_questions := filter (\<lambda>x. question_id x \<noteq> n) (quiz_questions db),
                   faults := drop 2 (faults db)\<rparr>))"
  using deleteCourse_frame[of c db] deleteLesson_ok[of db l] deleteQuiz_ok[of db q]
    deleteQuiz_frame[of q db] deleteQuestion_ok[of db n]
  by blast

theorem deleteCourse_no_grandchildren_witness:
  "engine_ok 3 course_db \<and> engine_ok 2 course_db \<and>
   fst (deleteCourse 3 course_db) = Inr () \<and>
   map lesson_id (lessons (snd (deleteCourse 3 course_db))) = [2] \<and>
   quizzes (snd (deleteCourse 3 course_db)) = [] \<and>
   map lp_lessonId (lesson_progress (snd (deleteCourse 3 course_db))) = [1] \<and>
   map question_quizId (quiz_questions (snd (deleteCourse 3 course_db))) = [1] \<and>
   map attempt_quizId (quiz_attempts (snd (deleteCourse 3 course_db))) = [1] \<and>
   map answer_questionId (quiz_answers (snd (deleteCourse 3 course_db))) = [1] \<and>
   fst (deleteLesson 1 course_db) = Inr () \<and>
   lesson_progress (snd (deleteLesson 1 course_db)) = [] \<and>
   fst (deleteQuiz 1 course_db) = Inr () \<and>
   quiz_questions (snd (deleteQuiz 1 course_db)) = [] \<and>
   quiz_attempts (snd (deleteQuiz 1 course_db)) = [] \<and>
   map answer_questionId (quiz_answers (snd (deleteQuiz 1 course_db))) = [1] \<and>
   fst (deleteQuestion 1 course_db) = Inr () \<and>
   quiz_answers (snd (deleteQuestion 1 course_db)) = []"
proof -
  have ok: "engine_ok 3 course_db" "engine_ok 2 course_db" "engine_ok 6 course_db"
    by (simp_all add: engine_ok_def course_db_def empty_db_def)
  note A = deleteCourse_no_grandchildren[of 3 course_db 1 1 1]
  have c: "fst (deleteCourse 3 course_db) = Inr () \<and>
      map lesson_id (lessons (snd (deleteCourse 3 course_db))) = [2] \<and>
      quizzes (snd (deleteCourse 3 course_db)) = []"
    unfolding deleteCourse_ok[OF ok(3)] by (simp add: course_db_def empty_db_def)
  have g: "map lp_lessonId (lesson_progress (snd (deleteCourse 3 course_db))) = [1] \<and>
      map question_quizId (quiz_questions (snd (deleteCourse 3 course_db))) = [1] \<and>
      map attempt_quizId (quiz_attempts (snd (deleteCourse 3 course_db))) = [1] \<and>
      map answer_questionId (quiz_answers (snd (deleteCourse 3 course_db))) = [1]"
    using A by (simp add: course_db_def empty_db_def)
  have l: "fst (deleteLesson 1 course_db) = Inr () \<and>
      lesson_progress (snd (deleteLesson 1 course_db)) = []"
    using A ok(2) by (simp add: course_db_def empty_db_def)
  have q: "fst (deleteQuiz 1 course_db) = Inr () \<and>
      quiz_questions (snd (deleteQuiz 1 course_db)) = [] \<and>
      quiz_attempts (snd (deleteQuiz 1 course_db)) = []"
    using A ok(1) by (simp add: course_db_def empty_db_def)
  have a: "map answer_questionId (quiz_answers (snd (deleteQuiz 1 course_db))) = [1]"
    using A by (simp add: course_db_def empty_db_def)
  have n: "fst (deleteQuestion 1 course_db) = Inr () \<and>
      quiz_answers (snd (deleteQuestion 1 course_db)) = []"
    using A ok(2) by (simp add: course_db_def empty_db_def)
  show ?thesis
    using ok(1,2) c g l q a n by (intro conjI) simp_all
qed

section \<open>Login and signup (user and session store)\<close>







lemma signup_session:
  "auth_user (fst (snd (signup email password name r (st, db)))) = auth_user st \<and>
   auth_isLoggedIn (fst (snd (signup email password name r (st, db)))) = auth_isLoggedIn st"
  by (simp add: signup_def Let_def split: prod.split sum.split option.split)

lemma signup_duplicate:
  assumes ok: "engine_ok (Suc n) db" and ex: "\<exists>u \<in> set (users db). user_email u = email"
  shows "signup email password name r (st, db) =
           (Inl (Error ''Email already registered''),
            st\<lparr>auth_isLoading := False\<rparr>, db\<lparr>faults := tl (faults db)\<rparr>)"
proof -
  from ex have "filter (\<lambda>u. user_email u = email) (users db) \<noteq> []"
    by (simp add: filter_empty_conv)
  then obtain u us where "filter (\<lambda>u. user_email u = email) (users db) = u # us"
    by (cases "filter (\<lambda>u. user_email u = email) (users db)") auto
  then show ?thesis
    by (simp add: signup_def getFirstAsync_ok[OF ok] select_users_by_email_def)
qed

lemma signup_fresh:
  assumes ok: "engine_ok (Suc (Suc n)) db"
    and none: "\<forall>u \<in> set (users db). user_email u \<noteq> email"
  shows "signup email password name r (st, db) =
           (Inr (), st\<lparr>auth_isLoading := False\<rparr>,
            db\<lparr>users := users db @
                 [\<lparr>user_id = next_id (seq_users db) (map user_id (users db)),
                   user_email = email, user_password = password, user_name = name,
                   user_role = r, user_profileImage = None, user_bio = None,
                   user_createdAt = clock db\<rparr>],
               seq_users := next_id (seq_users db) (map user_id (users db)),
               faults := drop 2 (faults db)\<rparr>)"
proof -
  have f: "filter (\<lambda>u. user_email u = email) (users db) = []"
    using none by (simp add: filter_empty_conv)
  have l: "\<not> list_ex (\<lambda>u. user_email u = email) (users db)"
    using none by (simp add: list_ex_iff)
  show ?thesis
    by (simp add: signup_def getFirstAsync_ok[OF ok] select_users_by_email_def f
        runAsync_ok[OF engine_ok_tl[OF ok]] insert_user_def l Let_def drop_2_tl)
qed

text \<open>
  Claim C6. While the engine works: a signup with an email that a user row already has
  fails with the duplicate-email error and leaves the tables, \<^verbatim>\<open>users\<close> among them, as
  they were; a signup with a new email succeeds and appends exactly one user row, with
  the given email, password, name and role. In no case does signup set the session
  (\<^verbatim>\<open>user\<close> and \<^verbatim>\<open>isLoggedIn\<close> keep their values).
\<close>

theorem signup_outcomes:
  assumes ok: "engine_ok 2 db"
  shows
    "((\<exists>u \<in> set (users db). user_email u = email) \<longrightarrow>
        signup email password name r (st, db) =
          (Inl (Error ''Email already registered''),
           st\<lparr>auth_isLoading := False\<rparr>, db\<lparr>faults := tl (faults db)\<rparr>)) \<and>
     ((\<forall>u \<in> set (users db). user_email u \<noteq> email) \<longrightarrow>
        signup email password name r (st, db) =
          (Inr (), st\<lparr>auth_isLoading := False\<rparr>,
           db\<lparr>users := users db @
                [\<lparr>user_id = next_id (seq_users db) (map user_id (users db)),
                  user_email = email, user_password = password, user_name = name,
                  user_role = r, user_profileImage = None, user_bio = None,
                  user_createdAt = clock db\<rparr>],
              seq_users := next_id (seq_users db) (map user_id (users db)),
              faults := drop 2 (faults db)\<rparr>)) \<and>
     auth_user (fst (snd (signup email password name r (st, db)))) = auth_user st \<and>
     auth_isLoggedIn (fst (snd (signup email password name r (st, db)))) = auth_isLoggedIn st"
proof -
  have ok2: "engine_ok (Suc (Suc 0)) db" using ok by (rule engine_ok_2)
  have ok1: "engine_ok (Suc 0) db" using ok2 by (rule engine_ok_mono[rotated]) simp
  show ?thesis
    using signup_duplicate[OF ok1, of email password name r st]
      signup_fresh[OF ok2, of email password name r st]
      signup_session[of email password name r st db]
    by blast
qed

theorem signup_outcomes_witness:
  "engine_ok 2 seeded_db \<and>
   signup ''student1@school.com'' ''secret'' ''Eve'' teacher (logged_out, seeded_db) =
     (Inl (Error ''Email already registered''), logged_out, seeded_db) \<and>
   signup ''carol@school.com'' ''secret'' ''Carol'' student (logged_out, seeded_db) =
     (Inr (), logged_out,
      seeded_db\<lparr>users := users seeded_db @
                  [\<lparr>user_id = 5, user_email = ''carol@school.com'', user_password = ''secret'',
                    user_name = ''Carol'', user_role = student, user_profileImage = None,
                    user_bio = None, user_createdAt = 1000\<rparr>],
                seq_users := 5\<rparr>)"
proof -
  have h: "engine_ok 2 seeded_db"
    by (simp add: seeded_db_def empty_db_def engine_ok_def)
  have a: "signup ''student1@school.com'' ''secret'' ''Eve'' teacher (logged_out, seeded_db) =
     (Inl (Error ''Email already registered''), logged_out, seeded_db)"
    using signup_outcomes[OF h, of "''student1@school.com''" "''secret''" "''Eve''" teacher logged_out]
    by (simp add: seeded_db_def empty_db_def logged_out_def)
  have b: "signup ''carol@school.com'' ''secret'' ''Carol'' student (logged_out, seeded_db) =
     (Inr (), logged_out,
      seeded_db\<lparr>users := users seeded_db @
                  [\<lparr>user_id = 5, user_email = ''carol@school.com'', user_password = ''secret'',
                    user_name = ''Carol'', user_role = student, user_profileImage = None,
                    user_bio = None, user_createdAt = 1000\<rparr>],
                seq_users := 5\<rparr>)"
    using signup_outcomes[OF h, of "''carol@school.com''" "''secret''" "''Carol''" student logged_out]
    by (simp add: seeded_db_def empty_db_def logged_out_def next_id_def)
  show ?thesis using h a b by (intro conjI)
qed

section \<open>Fetching the lessons of a course (course store)\<close>

lemma select_lessons_faults [simp]:
  "select_lessons_by_course c (db\<lparr>faults := fs\<rparr>) = select_lessons_by_course c db"
  by (simp add: select_lessons_by_course_def)

lemma fetchLessons_ok:
  assumes "engine_ok (Suc n) db"
  shows "fetchLessons c (st, db) =
           (Inr (), st\<lparr>cs_lessons := select_lessons_by_course c db, cs_isLoading := False\<rparr>,
            db\<lparr>faults := tl (faults db)\<rparr>)"
  by (simp add: fetchLessons_def getAllAsync_ok[OF assms])

lemma select_lessons_sorted:
  "sorted (map lesson_sequenceNumber (select_lessons_by_course c db))"
  by (simp add: select_lessons_by_course_def order_by_asc_def sorted_sort_key)

lemma select_lessons_mset:
  "mset (select_lessons_by_course c db) =
     mset (filter (\<lambda>l. lesson_courseId l = c) (lessons db))"
  by (simp add: select_lessons_by_course_def order_by_asc_def)

lemma select_lessons_columns:
  "mset (map lesson_columns (select_lessons_by_course c db)) =
     filter_mset (\<lambda>t. fst t = c) (mset (map lesson_columns (lessons db)))"
  by (simp add: select_lessons_by_course_def order_by_asc_def filter_mset_image_mset
      lesson_columns_def)

lemma select_lessons_perm:
  assumes "mset (map lesson_columns (lessons db2)) = mset (map lesson_columns (lessons db1))"
  shows "mset (map lesson_columns (select_lessons_by_course c db2)) =
           mset (map lesson_columns (select_lessons_by_course c db1))"
    and "map lesson_sequenceNumber (select_lessons_by_course c db2) =
           map lesson_sequenceNumber (select_lessons_by_course c db1)"
proof -
  show m: "mset (map lesson_columns (select_lessons_by_course c db2)) =
           mset (map lesson_columns (select_lessons_by_course c db1))"
    by (simp only: select_lessons_columns assms)
  have s: "lesson_sequenceNumber = (\<lambda>t. snd (snd t)) \<circ> lesson_columns"
    by (simp add: fun_eq_iff lesson_columns_def)
  have "mset (map lesson_sequenceNumber (select_lessons_by_course c db2)) =
        mset (map lesson_sequenceNumber (select_lessons_by_course c db1))"
    unfolding s map_map[symmetric] using m by (metis mset_map)
  then have "sort (map lesson_sequenceNumber (select_lessons_by_course c db1)) =
             map lesson_sequenceNumber (select_lessons_by_course c db2)"
    using select_lessons_sorted by (rule properties_for_sort)
  moreover have "sort (map lesson_sequenceNumber (select_lessons_by_course c db1)) =
             map lesson_sequenceNumber (select_lessons_by_course c db1)"
    using refl select_lessons_sorted by (rule properties_for_sort)
  ultimately show "map lesson_sequenceNumber (select_lessons_by_course c db2) =
           map lesson_sequenceNumber (select_lessons_by_course c db1)"
    by simp
qed

lemma createLesson_ok:
  assumes "engine_ok (Suc n) db"
  shows "createLesson l db =
    (Inr (),
     db\<lparr>lessons := lessons db @
          [\<lparr>lesson_id = next_id (seq_lessons db) (map lesson_id (lessons db)),
            lesson_courseId = nl_courseId l, lesson_title = nl_title l,
            lesson_description = string_or_null (nl_description l),
            lesson_content = string_or_null (nl_content l),
            lesson_videoUrl = string_or_null (nl_videoUrl l),
            lesson_fileUrl = string_or_null (nl_fileUrl l),
            lesson_fileType = string_or_null (nl_fileType l),
            lesson_duration = number_or_null (nl_duration l),
            lesson_sequenceNumber = nl_sequenceNumber l,
            lesson_createdAt = clock db, lesson_updatedAt = clock db\<rparr>],
        seq_lessons := next_id (seq_lessons db) (map lesson_id (lessons db)),
        faults := tl (faults db)\<rparr>)"
  by (simp add: createLesson_def runAsync_ok[OF assms] insert_lesson_def Let_def
      number_or_zero_def)

lemma after_createLessons_columns:
  assumes "engine_ok (length ls + m) db"
  shows "map lesson_columns (lessons (after_createLessons ls db)) =
           map lesson_columns (lessons db) @ map new_lesson_columns ls \<and>
         engine_ok m (after_createLessons ls db)"
  using assms
proof (induction ls arbitrary: db)
  case Nil
  then show ?case by (simp add: after_createLessons_def)
next
  case (Cons l ls)
  from Cons.prems have ok: "engine_ok (Suc (length ls + m)) db" by simp
  let ?d = "snd (createLesson l db)"
  have "engine_ok (length ls + m) ?d"
    using engine_ok_tl[OF ok] by (simp add: createLesson_ok[OF ok] engine_ok_def)
  from Cons.IH[OF this]
  have "map lesson_columns (lessons (after_createLessons ls ?d)) =
           map lesson_columns (lessons ?d) @ map new_lesson_columns ls"
    and "engine_ok m (after_createLessons ls ?d)" by simp_all
  moreover have "map lesson_columns (lessons ?d) =
      map lesson_columns (lessons db) @ [new_lesson_columns l]"
    by (simp add: createLesson_ok[OF ok] lesson_columns_def new_lesson_columns_def)
  ultimately show ?case by (simp add: after_createLessons_def)
qed

text \<open>
  Claim C7. While the engine works, \<^verbatim>\<open>fetchLessons\<close> leaves in the store exactly the
  lessons of the course (as a multiset of rows), in ascending order of sequence number.
  This holds whatever the order of insertion: after the same lessons have been created
  by \<^verbatim>\<open>createLesson\<close> in any two orders, the fetched lists are sorted, carry the same
  sequence numbers position by position, and hold the same lessons. (Lessons with equal
  sequence numbers may come in either order among themselves.)
\<close>

theorem fetchLessons_sorted:
  assumes ok: "engine_ok 1 db"
  shows
    "fst (fetchLessons c (st, db)) = Inr () \<and>
     sorted (map lesson_sequenceNumber (fetched_lessons c st db)) \<and>
     mset (fetched_lessons c st db) = mset (filter (\<lambda>l. lesson_courseId l = c) (lessons db)) \<and>
     (\<forall>ls ls'. mset ls' = mset ls \<and> engine_ok (Suc (length ls)) db \<longrightarrow>
        sorted (map lesson_sequenceNumber (fetched_lessons c st (after_createLessons ls db))) \<and>
        mset (map lesson_columns (fetched_lessons c st (after_createLessons ls db))) =
          filter_mset (\<lambda>t. fst t = c)
            (mset (map lesson_columns (lessons db)) + mset (map new_lesson_columns ls)) \<and>
        map lesson_sequenceNumber (fetched_lessons c st (after_createLessons ls' db)) =
          map lesson_sequenceNumber (fetched_lessons c st (after_createLessons ls db)) \<and>
        mset (map lesson_columns (fetched_lessons c st (after_createLessons ls' db))) =
          mset (map lesson_columns (fetched_lessons c st (after_createLessons ls db))))"
proof -
  have ok1: "engine_ok (Suc 0) db" using ok by simp
  have f: "fetched_lessons c st d = select_lessons_by_course c d" if "engine_ok (Suc 0) d" for d
    by (simp add: fetched_lessons_def fetchLessons_ok[OF that])
  have ins: "sorted (map lesson_sequenceNumber (fetched_lessons c st (after_createLessons ls db))) \<and>
        mset (map lesson_columns (fetched_lessons c st (after_createLessons ls db))) =
          filter_mset (\<lambda>t. fst t = c)
            (mset (map lesson_columns (lessons db)) + mset (map new_lesson_columns ls)) \<and>
        map lesson_sequenceNumber (fetched_lessons c st (after_createLessons ls' db)) =
          map lesson_sequenceNumber (fetched_lessons c st (after_createLessons ls db)) \<and>
        mset (map lesson_columns (fetched_lessons c st (after_createLessons ls' db))) =
          mset (map lesson_columns (fetched_lessons c st (after_createLessons ls db)))"
    if p: "mset ls' = mset ls" and e: "engine_ok (Suc (length ls)) db" for ls ls'
  proof -
    have len: "length ls' = length ls" using p by (rule mset_eq_length)
    have e1: "engine_ok (length ls + Suc 0) db" using e by simp
    have e2: "engine_ok (length ls' + Suc 0) db" using e len by simp
    note a1 = after_createLessons_columns[OF e1]
    note a2 = after_createLessons_columns[OF e2]
    have "mset (map new_lesson_columns ls') = mset (map new_lesson_columns ls)"
      using p by (metis mset_map)
    then have m: "mset (map lesson_columns (lessons (after_createLessons ls' db))) =
          mset (map lesson_columns (lessons (after_createLessons ls db)))"
      using a1 a2 by simp
    have f1: "fetched_lessons c st (after_createLessons ls db) =
                select_lessons_by_course c (after_createLessons ls db)"
      using a1 by (intro f) simp
    have f2: "fetched_lessons c st (after_createLessons ls' db) =
                select_lessons_by_course c (after_createLessons ls' db)"
      using a2 by (intro f) simp
    have c1: "mset (map lesson_columns (select_lessons_by_course c (after_createLessons ls db))) =
          filter_mset (\<lambda>t. fst t = c)
            (mset (map lesson_columns (lessons db)) + mset (map new_lesson_columns ls))"
      unfolding select_lessons_columns using a1 by simp
    show ?thesis
      unfolding f1 f2
      using select_lessons_sorted[of c "after_createLessons ls db"] c1
        select_lessons_perm(2)[OF m, of c] select_lessons_perm(1)[OF m, of c]
      by (intro conjI)
  qed
  have g: "fst (fetchLessons c (st, db)) = Inr () \<and>
     sorted (map lesson_sequenceNumber (fetched_lessons c st db)) \<and>
     mset (fetched_lessons c st db) = mset (filter (\<lambda>l. lesson_courseId l = c) (lessons db))"
    by (simp add: f[OF ok1] fetchLessons_ok[OF ok1] select_lessons_sorted select_lessons_mset)
  show ?thesis
    using g ins by blast
qed

theorem fetchLessons_sorted_witness:
  "engine_ok 1 course_db \<and>
   map lesson_id (fetched_lessons 3 no_course_state course_db) = [3, 1] \<and>
   sorted (map lesson_sequenceNumber (fetched_lessons 3 no_course_state course_db)) \<and>
   mset [lesson_one, lesson_two] = mset [lesson_two, lesson_one] \<and>
   engine_ok (Suc (length [lesson_two, lesson_one])) empty_db \<and>
   map lesson_columns
     (fetched_lessons 3 no_course_state (after_createLessons [lesson_two, lesson_one] empty_db)) =
     [(3, ''lesson-1'', 1), (3, ''lesson-2'', 2)] \<and>
   map lesson_sequenceNumber
     (fetched_lessons 3 no_course_state (after_createLessons [lesson_one, lesson_two] empty_db)) =
     [1, 2]"
proof -
  have h: "engine_ok 1 course_db" "engine_ok 1 empty_db"
    "mset [lesson_one, lesson_two] = mset [lesson_two, lesson_one]"
    "engine_ok (Suc (length [lesson_two, lesson_one])) empty_db"
    by (simp_all add: engine_ok_def course_db_def empty_db_def)
  note A = fetchLessons_sorted[OF h(1), of 3 no_course_state]
  note B = fetchLessons_sorted[OF h(2), of 3 no_course_state]
  have a1: "map lesson_id (fetched_lessons 3 no_course_state course_db) = [3, 1]"
    by (simp add: fetched_lessons_def fetchLessons_def getAllAsync_def next_fault_def
        select_lessons_by_course_def order_by_asc_def course_db_def empty_db_def
        no_course_state_def)
  have a2: "sorted (map lesson_sequenceNumber (fetched_lessons 3 no_course_state course_db))"
    using A by blast
  have b1: "map lesson_columns
     (fetched_lessons 3 no_course_state (after_createLessons [lesson_two, lesson_one] empty_db)) =
     [(3, ''lesson-1'', 1), (3, ''lesson-2'', 2)]"
    by (simp add: fetched_lessons_def fetchLessons_def getAllAsync_def next_fault_def
        select_lessons_by_course_def order_by_asc_def after_createLessons_def createLesson_def
        runAsync_def insert_lesson_def next_id_def number_or_zero_def lesson_columns_def
        lesson_one_def lesson_two_def empty_db_def no_course_state_def Let_def)
  have "map lesson_sequenceNumber
     (fetched_lessons 3 no_course_state (after_createLessons [lesson_one, lesson_two] empty_db)) =
     map lesson_sequenceNumber
     (fetched_lessons 3 no_course_state (after_createLessons [lesson_two, lesson_one] empty_db))"
    using B h(3,4) by blast
  also have "\<dots> = map (\<lambda>t. snd (snd t)) (map lesson_columns
     (fetched_lessons 3 no_course_state (after_createLessons [lesson_two, lesson_one] empty_db)))"
    by (simp add: lesson_columns_def)
  also have "\<dots> = [1, 2]" unfolding b1 by simp
  finally have b2: "map lesson_sequenceNumber
     (fetched_lessons 3 no_course_state (after_createLessons [lesson_one, lesson_two] empty_db)) =
     [1, 2]" .
  show ?thesis using h(1) a1 a2 h(3,4) b1 b2 by (intro conjI)
qed

section \<open>Engine failures in the progress store\<close>

lemma reads_never_reject:
  "\<not> isl (fst (getEnrollment s c db)) \<and>
   \<not> isl (fst (getLessonProgress s l db)) \<and>
   \<not> isl (fst (getCourseProgress s c db)) \<and>
   \<not> isl (fst (fetchTeacherStudentProgress t db)) \<and>
   \<not> isl (fst (fetchCourseStudentProgress c db)) \<and>
   \<not> isl (fst (fetchStudentEnrollments s (st, db))) \<and>
   \<not> isl (fst (fetchCourseLessonProgress s c (st, db)))"
  by (simp add: getEnrollment_def getLessonProgress_def getCourseProgress_def
      fetchTeacherStudentProgress_def fetchCourseStudentProgress_def
      fetchStudentEnrollments_def fetchCourseLessonProgress_def Let_def
      split: prod.split sum.split option.split)

lemma reads_swallow:
  assumes "faults db = True # fs"
  shows
    "getEnrollment s c db = (Inr None, db\<lparr>faults := fs\<rparr>) \<and>
     getLessonProgress s l db = (Inr None, db\<lparr>faults := fs\<rparr>) \<and>
     getCourseProgress s c db = (Inr 0, db\<lparr>faults := fs\<rparr>) \<and>
     fetchTeacherStudentProgress t db = (Inr [], db\<lparr>faults := fs\<rparr>) \<and>
     fetchCourseStudentProgress c db = (Inr [], db\<lparr>faults := fs\<rparr>) \<and>
     fetchStudentEnrollments s (st, db) =
       (Inr (), st\<lparr>ps_isLoading := False\<rparr>, db\<lparr>faults := fs\<rparr>) \<and>
     fetchCourseLessonProgress s c (st, db) =
       (Inr (), st\<lparr>ps_isLoading := False\<rparr>, db\<lparr>faults := fs\<rparr>)"
  by (simp add: getEnrollment_def getLessonProgress_def getCourseProgress_def
      fetchTeacherStudentProgress_def fetchCourseStudentProgress_def
      fetchStudentEnrollments_def fetchCourseLessonProgress_def
      getFirstAsync_fails[OF assms] getAllAsync_fails[OF assms])

lemma writes_rethrow:
  assumes "faults db = True # fs"
  shows
    "enrollInCourse s c db = (Inl SqliteError, db\<lparr>faults := fs\<rparr>) \<and>
     unenrollFromCourse s c db = (Inl SqliteError, db\<lparr>faults := fs\<rparr>) \<and>
     updateEnrollmentProgress e pct db = (Inl SqliteError, db\<lparr>faults := fs\<rparr>) \<and>
     markLessonComplete s l db = (Inl SqliteError, db\<lparr>faults := fs\<rparr>) \<and>
     markLessonIncomplete s l db = (Inl SqliteError, db\<lparr>faults := fs\<rparr>) \<and>
     updateLessonTimeSpent s l d db = (Inl SqliteError, db\<lparr>faults := fs\<rparr>)"
  by (simp add: enrollInCourse_def unenrollFromCourse_def updateEnrollmentProgress_def
      markLessonComplete_def markLessonIncomplete_def updateLessonTimeSpent_def
      getFirstAsync_fails[OF assms] runAsync_fails[OF assms])

lemma getFirstAsync_then_fault:
  assumes "faults db = False # True # fs"
  shows "getFirstAsync query db =
           (Inr (case query (db\<lparr>faults := True # fs\<rparr>) of [] \<Rightarrow> None | r # _ \<Rightarrow> Some r),
            db\<lparr>faults := True # fs\<rparr>)"
  using assms by (simp add: getFirstAsync_def next_fault_def)

lemma writes_rethrow_second:
  assumes "faults db = False # True # fs"
  shows
    "(fst (enrollInCourse s c db) = Inl SqliteError \<or>
      fst (enrollInCourse s c db) = Inl (Error ''Already enrolled in this course'')) \<and>
     fst (markLessonComplete s l db) = Inl SqliteError \<and>
     fst (updateLessonTimeSpent s l d db) = Inl SqliteError"
proof -
  have r: "runAsync stmt (db\<lparr>faults := True # fs\<rparr>) = (Inl SqliteError, db\<lparr>faults := fs\<rparr>)"
    for stmt
    by (simp add: runAsync_def next_fault_def)
  show ?thesis
    by (simp add: enrollInCourse_def markLessonComplete_def updateLessonTimeSpent_def
        getFirstAsync_then_fault[OF assms] r Let_def split: list.split)
qed

text \<open>
  Claim C8, as stated, fails for the two fetch operations: when the engine raises,
  \<^verbatim>\<open>fetchStudentEnrollments\<close> and \<^verbatim>\<open>fetchCourseLessonProgress\<close> return nothing and
  leave the cached rows of an earlier fetch in the store; no empty collection takes
  their place.
\<close>

theorem fetch_failure_counterexample:
  "ps_enrollments cached_state \<noteq> [] \<and> ps_lessonProgress cached_state \<noteq> [] \<and>
   fetchStudentEnrollments 7 (cached_state, failing_db) = (Inr (), cached_state, empty_db) \<and>
   fetchCourseLessonProgress 7 3 (cached_state, failing_db) = (Inr (), cached_state, empty_db)"
  by (simp add: fetchStudentEnrollments_def fetchCourseLessonProgress_def getAllAsync_def
      next_fault_def failing_db_def empty_db_def cached_state_def)

text \<open>
  Claim C8, amended. No read operation of the progress store ever rejects. When the
  engine raises at its statement, \<^verbatim>\<open>getEnrollment\<close> and \<^verbatim>\<open>getLessonProgress\<close> return
  null, \<^verbatim>\<open>getCourseProgress\<close> returns 0, the two teacher analytics return the empty
  list, and \<^verbatim>\<open>fetchStudentEnrollments\<close> and \<^verbatim>\<open>fetchCourseLessonProgress\<close> complete
  with the cached rows unchanged and \<^verbatim>\<open>isLoading\<close> cleared. Every write operation
  rejects with the engine's error when its first statement raises, and the three
  writes of two statements also when the second one raises (unless \<^verbatim>\<open>enrollInCourse\<close>
  has already rejected with its own already-enrolled error).
\<close>

theorem engine_failure_handling:
  "\<not> isl (fst (getEnrollment s c db)) \<and>
   \<not> isl (fst (getLessonProgress s l db)) \<and>
   \<not> isl (fst (getCourseProgress s c db)) \<and>
   \<not> isl (fst (fetchTeacherStudentProgress t db)) \<and>
   \<not> isl (fst (fetchCourseStudentProgress c db)) \<and>
   \<not> isl (fst (fetchStudentEnrollments s (st, db))) \<and>
   \<not> isl (fst (fetchCourseLessonProgress s c (st, db))) \<and>
   (faults db = True # fs \<longrightarrow>
      getEnrollment s c db = (Inr None, db\<lparr>faults := fs\<rparr>) \<and>
      getLessonProgress s l db = (Inr None, db\<lparr>faults := fs\<rparr>) \<and>
      getCourseProgress s c db = (Inr 0, db\<lparr>faults := fs\<rparr>) \<and>
      fetchTeacherStudentProgress t db = (Inr [], db\<lparr>faults := fs\<rparr>) \<and>
      fetchCourseStudentProgress c db = (Inr [], db\<lparr>faults := fs\<rparr>) \<and>
      fetchStudentEnrollments s (st, db) =
        (Inr (), st\<lparr>ps_isLoading := False\<rparr>, db\<lparr>faults := fs\<rparr>) \<and>
      fetchCourseLessonProgress s c (st, db) =
        (Inr (), st\<lparr>ps_isLoading := False\<rparr>, db\<lparr>faults := fs\<rparr>) \<and>
      enrollInCourse s c db = (Inl SqliteError, db\<lparr>faults := fs\<rparr>) \<and>
      unenrollFromCourse s c db = (Inl SqliteError, db\<lparr>faults := fs\<rparr>) \<and>
      updateEnrollmentProgress e pct db = (Inl SqliteError, db\<lparr>faults := fs\<rparr>) \<and>
      markLessonComplete s l db = (Inl SqliteError, db\<lparr>faults := fs\<rparr>) \<and>
      markLessonIncomplete s l db = (Inl SqliteError, db\<lparr>faults := fs\<rparr>) \<and>
      updateLessonTimeSpent s l d db = (Inl SqliteError, db\<lparr>faults := fs\<rparr>)) \<and>
   (faults db = False # True # fs \<longrightarrow>
      (fst (enrollInCourse s c db) = Inl SqliteError \<or>
       fst (enrollInCourse s c db) = Inl (Error ''Already enrolled in this course'')) \<and>
      fst (markLessonComplete s l db) = Inl SqliteError \<and>
      fst (updateLessonTimeSpent s l d db) = Inl SqliteError)"
  using reads_never_reject[of s c db l t st] reads_swallow[of db fs s c l t st]
    writes_rethrow[of db fs s c e pct l d] writes_rethrow_second[of db fs s c l d]
  by blast

theorem engine_failure_handling_witness:
  "faults failing_db = [True] \<and>
   getEnrollment 7 3 failing_db = (Inr None, empty_db) \<and>
   getLessonProgress 7 5 failing_db = (Inr None, empty_db) \<and>
   getCourseProgress 7 3 failing_db = (Inr 0, empty_db) \<and>
   fetchTeacherStudentProgress 1 failing_db = (Inr [], empty_db) \<and>
   fetchCourseStudentProgress 3 failing_db = (Inr [], empty_db) \<and>
   fetchStudentEnrollments 7 (cached_state, failing_db) = (Inr (), cached_state, empty_db) \<and>
   fetchCourseLessonProgress 7 3 (cached_state, failing_db) = (Inr (), cached_state, empty_db) \<and>
   enrollInCourse 7 3 failing_db = (Inl SqliteError, empty_db) \<and>
   unenrollFromCourse 7 3 failing_db = (Inl SqliteError, empty_db) \<and>
   updateEnrollmentProgress 1 50 failing_db = (Inl SqliteError, empty_db) \<and>
   markLessonComplete 7 5 failing_db = (Inl SqliteError, empty_db) \<and>
   markLessonIncomplete 7 5 failing_db = (Inl SqliteError, empty_db) \<and>
   updateLessonTimeSpent 7 5 30 failing_db = (Inl SqliteError, empty_db) \<and>
   faults (empty_db\<lparr>faults := [False, True]\<rparr>) = [False, True] \<and>
   fst (enrollInCourse 7 3 (empty_db\<lparr>faults := [False, True]\<rparr>)) = Inl SqliteError \<and>
   fst (markLessonComplete 7 5 (empty_db\<lparr>faults := [False, True]\<rparr>)) = Inl SqliteError \<and>
   fst (updateLessonTimeSpent 7 5 30 (empty_db\<lparr>faults := [False, True]\<rparr>)) = Inl SqliteError"
proof -
  have h: "faults failing_db = True # []" "failing_db\<lparr>faults := []\<rparr> = empty_db"
    "cached_state\<lparr>ps_isLoading := False\<rparr> = cached_state"
    "faults (empty_db\<lparr>faults := [False, True]\<rparr>) = False # True # []"
    by (simp_all add: failing_db_def empty_db_def cached_state_def)
  note A = engine_failure_handling[of 7 3 failing_db 5 1 cached_state "[]" 1 50 30]
  note B = engine_failure_handling[of 7 3 "empty_db\<lparr>faults := [False, True]\<rparr>" 5 1
      cached_state "[]" 1 50 30]
  have a: "getEnrollment 7 3 failing_db = (Inr None, empty_db) \<and>
   getLessonProgress 7 5 failing_db = (Inr None, empty_db) \<and>
   getCourseProgress 7 3 failing_db = (Inr 0, empty_db) \<and>
   fetchTeacherStudentProgress 1 failing_db = (Inr [], empty_db) \<and>
   fetchCourseStudentProgress 3 failing_db = (Inr [], empty_db) \<and>
   fetchStudentEnrollments 7 (cached_state, failing_db) = (Inr (), cached_state, empty_db) \<and>
   fetchCourseLessonProgress 7 3 (cached_state, failing_db) = (Inr (), cached_state, empty_db) \<and>
   enrollInCourse 7 3 failing_db = (Inl SqliteError, empty_db) \<and>
   unenrollFromCourse 7 3 failing_db = (Inl SqliteError, empty_db) \<and>
   updateEnrollmentProgress 1 50 failing_db = (Inl SqliteError, empty_db) \<and>
   markLessonComplete 7 5 failing_db = (Inl SqliteError, empty_db) \<and>
   markLessonIncomplete 7 5 failing_db = (Inl SqliteError, empty_db) \<and>
   updateLessonTimeSpent 7 5 30 failing_db = (Inl SqliteError, empty_db)"
    using A h(1) unfolding h(2,3) by blast
  have "fst (enrollInCourse 7 3 (empty_db\<lparr>faults := [False, True]\<rparr>)) = Inl SqliteError \<or>
      fst (enrollInCourse 7 3 (empty_db\<lparr>faults := [False, True]\<rparr>)) =
        Inl (Error ''Already enrolled in this course'')"
    using B h(4) by blast
  moreover have "fst (enrollInCourse 7 3 (empty_db\<lparr>faults := [False, True]\<rparr>)) \<noteq>
        Inl (Error ''Already enrolled in this course'')"
    by (simp add: enrollInCourse_def getFirstAsync_def next_fault_def
        select_enrollments_by_student_course_def runAsync_def empty_db_def)
  ultimately have b1:
    "fst (enrollInCourse 7 3 (empty_db\<lparr>faults := [False, True]\<rparr>)) = Inl SqliteError"
    by blast
  have b2: "fst (markLessonComplete 7 5 (empty_db\<lparr>faults := [False, True]\<rparr>)) = Inl SqliteError \<and>
   fst (updateLessonTimeSpent 7 5 30 (empty_db\<lparr>faults := [False, True]\<rparr>)) = Inl SqliteError"
    using B h(4) by blast
  have h1: "faults failing_db = [True]" using h(1) .
  have h4: "faults (empty_db\<lparr>faults := [False, True]\<rparr>) = [False, True]" using h(4) .
  show ?thesis using h1 a h4 b1 b2 by blast
qed

section \<open>The uniqueness constraints are maintained\<close>

lemma getFirstAsync_cases:
  "getFirstAsync query db =
     (if take 1 (faults db) = [True] then (Inl SqliteError, db\<lparr>faults := tl (faults db)\<rparr>)
      else (Inr (case query (db\<lparr>faults := tl (faults db)\<rparr>) of [] \<Rightarrow> None | r # _ \<Rightarrow> Some r),
            db\<lparr>faults := tl (faults db)\<rparr>))"
proof (cases "faults db")
  case Nil
  then have e: "db\<lparr>faults := []\<rparr> = db" by simp
  show ?thesis by (simp add: getFirstAsync_def next_fault_def Nil e)
next
  case (Cons f fs)
  then show ?thesis by (simp add: getFirstAsync_def next_fault_def)
qed

lemma empty_db_unique:
  "users_unique empty_db \<and> enrollments_unique empty_db \<and> lesson_progress_unique empty_db"
  by (simp add: users_unique_def enrollments_unique_def lesson_progress_unique_def empty_db_def)

lemma signup_keeps_users_unique:
  assumes "users_unique db"
  shows "users_unique (snd (snd (signup email password name r (st, db))))"
  using assms
  by (auto simp: signup_def getFirstAsync_cases runAsync_cases select_users_by_email_def
      insert_user_def users_unique_def list_ex_iff Let_def split: list.split)

lemma enrollment_key_update:
  "(\<lambda>e. (enr_studentId e, enr_courseId e)) \<circ>
     (\<lambda>e. if P e then e\<lparr>enr_status := a, enr_completionPercentage := b\<rparr> else e)
   = (\<lambda>e. (enr_studentId e, enr_courseId e))"
  by (auto simp: fun_eq_iff)

lemma enrollInCourse_keeps_unique:
  assumes "enrollments_unique db"
  shows "enrollments_unique (snd (enrollInCourse s c db))"
  using assms
  by (auto simp: enrollInCourse_def getFirstAsync_cases runAsync_cases
      select_enrollments_by_student_course_def update_enrollments_status_reset_def
      insert_enrollment_def enrollments_unique_def list_ex_iff Let_def enrollment_key_update
      split: list.split)

lemma lesson_progress_key_complete:
  "(\<lambda>p. (lp_studentId p, lp_lessonId p)) \<circ>
     (\<lambda>p. if P p then p\<lparr>lp_isCompleted := a, lp_completedAt := b\<rparr> else p)
   = (\<lambda>p. (lp_studentId p, lp_lessonId p))"
  by (auto simp: fun_eq_iff)

lemma lesson_progress_key_timeSpent:
  "(\<lambda>p. (lp_studentId p, lp_lessonId p)) \<circ>
     (\<lambda>p. if P p then p\<lparr>lp_timeSpent := t\<rparr> else p)
   = (\<lambda>p. (lp_studentId p, lp_lessonId p))"
  by (auto simp: fun_eq_iff)

lemma lesson_progress_stays_unique:
  assumes "lesson_progress_unique db"
  shows "lesson_progress_unique (snd (markLessonComplete s l db)) \<and>
         lesson_progress_unique (snd (markLessonIncomplete s l db)) \<and>
         lesson_progress_unique (snd (updateLessonTimeSpent s l d db))"
  using assms
  by (auto simp: markLessonComplete_def markLessonIncomplete_def updateLessonTimeSpent_def
      getFirstAsync_cases runAsync_cases select_lesson_progress_by_student_lesson_def
      update_lesson_progress_complete_def update_lesson_progress_incomplete_def
      update_lesson_progress_timeSpent_def insert_lesson_progress_def lesson_progress_unique_def
      list_ex_iff Let_def lesson_progress_key_complete lesson_progress_key_timeSpent
      split: list.split)

end
